theory Spec2Isabelle
  imports Complex_Main "HOL-Library.Log_Nat" "HOL-Library.Code_Target_Numeral"
begin

section \<open>GSimulator: the command helper (\<open>GSimulator/command_helper.py\<close>)\<close>

text \<open>
  The module reads an experiment setup from a CSV file (\<open>read_setup\<close>) and evaluates
  a conductance model over a batch of configurations, drawing an overlay plot, a table
  and a contour plot of the derivatives (\<open>plotter\<close>).

  Conventions of the embedding.
  \<^item> A NumPy \<open>float64\<close> is a \<open>real\<close>. The two sweeps are computed as the code computes
    them, every operation of \<open>np.arange\<close> and of its bound rounded to the nearest double
    (\<open>float64\<close> below). The other arithmetic of \<open>plotter\<close> is exact; infinities, NaN and
    what a division by zero yields are not represented. A Python \<open>int\<close> is an \<open>int\<close> (or
    a \<open>nat\<close> where it is a length or a loop index).
  \<^item> A one-dimensional array is a \<open>real list\<close>, a two-dimensional one a list of rows.
  \<^item> Every exception the interpreter or a library raises on the paths of \<open>plotter\<close>
    and \<open>read_setup\<close> is a value of type \<open>error\<close>; a raising computation returns
    \<open>Inl\<close>.
  \<^item> Calls into matplotlib, PrettyTable and \<open>print\<close> are recorded, in program order,
    as a list of \<open>event\<close>s in the program state.
  \<^item> The class \<open>Model\<close> (\<open>GSimulator/model.py\<close>) is a parameter: its constructor is a
    function argument and an instance is a record of the attributes and methods that
    \<open>plotter\<close> reads.
\<close>

subsection \<open>Errors\<close>

datatype error =
    IndexError          \<comment> \<open>indexing a sequence out of range\<close>
  | ValueError          \<comment> \<open>raised by NumPy and matplotlib on arrays of the wrong shape\<close>
  | UnboundLocalError   \<comment> \<open>reading a local variable that was never assigned\<close>

text \<open>\<open>xs[k]\<close> for a non-negative index \<open>k\<close>.\<close>

definition getitem :: "'a list \<Rightarrow> nat \<Rightarrow> error + 'a" where
  "getitem xs k = (if k < length xs then Inr (xs ! k) else Inl IndexError)"

subsection \<open>The NumPy functions used\<close>

text \<open>
  Rounding to double precision. \<open>rne\<close> rounds a real to the nearest integer, a tie to the
  even one. \<open>float64 x\<close> is the double nearest to \<open>x\<close>: \<open>x\<close> is scaled by the power of two
  that brings its magnitude into \<open>[2^52, 2^53)\<close>, rounded by \<open>rne\<close> and scaled back. Below
  \<open>2^-1022\<close> the spacing stays \<open>2^-1074\<close> (subnormal numbers); overflow to infinity is not
  represented.
\<close>

definition rne :: "real \<Rightarrow> int" where
  "rne t =
     (let f = \<lfloor>t\<rfloor>; r = t - of_int f in
      if r < 1 / 2 then f else if r > 1 / 2 then f + 1 else if even f then f else f + 1)"

definition float64 :: "real \<Rightarrow> real" where
  "float64 x =
     (if x = 0 then 0
      else if \<bar>x\<bar> \<ge> 1 then
        (let n = floorlog 2 (nat \<lfloor>\<bar>x\<bar>\<rfloor>) - 1
         in of_int (rne (x * 2 ^ 52 / 2 ^ n)) * 2 ^ n / 2 ^ 52)
      else
        (let k = min (floorlog 2 (nat (\<lceil>1 / \<bar>x\<bar>\<rceil> - 1))) 1022
         in of_int (rne (x * 2 ^ 52 * 2 ^ k)) / (2 ^ 52 * 2 ^ k)))"

text \<open>
  \<open>np.arange(start, stop, step)\<close> on floats, for a positive \<open>step\<close>, as NumPy computes it:
  the number of samples is \<open>ceil((stop - start) / step)\<close> with the difference and the
  quotient rounded (none when it is not positive); the first two samples are \<open>start\<close> and
  \<open>start + step\<close>; with \<open>delta\<close> their rounded difference, sample \<open>i\<close> is
  \<open>start + i * delta\<close>, product and sum rounded. The last sample can therefore reach or
  pass \<open>stop\<close>.
\<close>

definition np_arange :: "real \<Rightarrow> real \<Rightarrow> real \<Rightarrow> real list" where
  "np_arange start stop step =
     (let len = nat \<lceil>float64 (float64 (stop - start) / step)\<rceil>;
          next = float64 (start + step);
          delta = float64 (next - start)
      in map (\<lambda>i. if i = 0 then start else if i = 1 then next
                     else float64 (start + float64 (real i * delta))) [0..<len])"

text \<open>\<open>np.where(mask)[0]\<close>: the positions at which a boolean array is true, ascending.\<close>

definition np_where :: "bool list \<Rightarrow> nat list" where
  "np_where cond = filter (\<lambda>k. cond ! k) [0..<length cond]"

text \<open>
  \<open>np.gradient(f)\<close> of a one-dimensional array with unit spacing: one-sided differences
  at the two ends, central differences inside; fewer than two samples raise
  \<open>ValueError\<close>.
\<close>

definition np_gradient :: "real list \<Rightarrow> error + real list" where
  "np_gradient f =
     (let n = length f in
      if n < 2 then Inl ValueError
      else Inr (map (\<lambda>k. if k = 0 then f ! 1 - f ! 0
                          else if k = n - 1 then f ! (n - 1) - f ! (n - 2)
                          else (f ! (k + 1) - f ! (k - 1)) / 2) [0..<n]))"

text \<open>
  \<open>np.array(rows)\<close> of a list of one-dimensional arrays: the two-dimensional array of the
  rows; rows of different lengths raise \<open>ValueError\<close>.
\<close>

definition np_array :: "real list list \<Rightarrow> error + real list list" where
  "np_array rows =
     (if \<forall>r \<in> set rows. length r = length (hd rows) then Inr rows else Inl ValueError)"

subsection \<open>\<open>read_setup\<close>\<close>

text \<open>
  The result of \<open>np.genfromtxt\<close>: an array of dimension 0, 1 or 2.
\<close>

datatype ndarray =
    Array0 real
  | Array1 "real list"
  | Array2 "real list list"

fun ndim :: "ndarray \<Rightarrow> nat" where
  "ndim (Array0 v) = 0"
| "ndim (Array1 r) = 1"
| "ndim (Array2 rows) = 2"

text \<open>
  \<open>np.squeeze\<close> of the table of parsed rows, the last step of \<open>np.genfromtxt\<close>: axes of
  length one are dropped.
\<close>

definition squeeze :: "real list list \<Rightarrow> ndarray" where
  "squeeze rows =
     (case rows of
        [] \<Rightarrow> Array1 []
      | [r] \<Rightarrow> (case r of [v] \<Rightarrow> Array0 v | _ \<Rightarrow> Array1 r)
      | _ \<Rightarrow> if \<forall>r \<in> set rows. length r = 1 then Array1 (map hd rows) else Array2 rows)"

text \<open>
  \<open>np.genfromtxt(file_name, delimiter=",", skip_header=n)\<close>. The file is the list of its
  non-empty lines, each the list of its comma-separated fields; \<open>float_of\<close> is the
  conversion of a field to a number. Lines with different numbers of fields raise
  \<open>ValueError\<close>.
\<close>

definition genfromtxt :: "(string \<Rightarrow> real) \<Rightarrow> nat \<Rightarrow> string list list \<Rightarrow> error + ndarray" where
  "genfromtxt float_of skip_header lines =
     (let rows = map (map float_of) (drop skip_header lines) in
      if \<forall>r \<in> set rows. length r = length (hd rows) then Inr (squeeze rows)
      else Inl ValueError)"

definition read_setup :: "(string \<Rightarrow> real) \<Rightarrow> string list list \<Rightarrow> error + ndarray" where
  "read_setup float_of file =
     (case genfromtxt float_of 1 file of
        Inl e \<Rightarrow> Inl e
      | Inr exp_setup \<Rightarrow>
          if ndim exp_setup = 1
          then (case exp_setup of Array1 r \<Rightarrow> Inr (Array2 [r]) | _ \<Rightarrow> Inr exp_setup)
          else Inr exp_setup)"

text \<open>\<open>len(a)\<close> of an array: the number of rows; a zero-dimensional array has none.\<close>

fun len :: "ndarray \<Rightarrow> nat option" where
  "len (Array0 v) = None"
| "len (Array1 r) = Some (length r)"
| "len (Array2 rows) = Some (length rows)"

subsection \<open>The model object\<close>

text \<open>
  What \<open>plotter\<close> reads of a \<open>Model\<close> instance: eight attributes and two methods.
\<close>

record model =
  hw_x :: real
  hw_y :: real
  magnetic_field :: real
  angle :: real
  E1 :: real
  E2 :: real
  eVsd :: real
  hw_c :: real
  zeeman :: "real \<Rightarrow> real"
  total_transmission :: "int \<Rightarrow> real list \<Rightarrow> real list"

subsection \<open>Program state and recorded calls\<close>

datatype figure = Fig | Fig1

datatype event =
    Subplots figure
  | Suptitle figure string
  | Set_ylabel figure string
  | Set_xlabel figure string
  | Set_ylim figure real real
  | Set_yticks figure "real list"
  | Grid
  | Plot figure "real list" "real list"
  | Print_table "string list" "real list list"
  | Print_line string
  | Set_xlim figure real real
  | Contourf figure "real list list"
  | Colorbar figure
  | Savefig figure string
  | Show

record pstate =
  events :: "event list"            \<comment> \<open>the calls made so far\<close>
  table :: "real list list"          \<comment> \<open>the rows added to the PrettyTable\<close>
  dydx :: "real list list"           \<comment> \<open>the list \<open>dydx\<close>\<close>
  x_min :: "real option"             \<comment> \<open>the local \<open>x_min\<close>, \<open>None\<close> while unassigned\<close>

text \<open>
  A run either completes in a state or raises an error in the state reached so far.
\<close>

type_synonym outcome = "(error \<times> pstate) + pstate"

definition emit :: "event \<Rightarrow> pstate \<Rightarrow> pstate" where
  "emit e s = s\<lparr>events := events s @ [e]\<rparr>"

definition backslash :: string where
  "backslash = [CHR 0x5C]"

definition ylabel_text :: string where
  "ylabel_text = ''$G '' @ backslash @ ''times '' @ backslash @ ''frac{h}{2e^{2}} $''"

definition xlabel_text :: string where
  "xlabel_text = ''$ '' @ backslash @ ''frac{E_{f} - U_{0}}{'' @ backslash @ ''hbar w_{x}}$''"

definition diff_xlabel_text :: string where
  "diff_xlabel_text = ''$ 10 '' @ backslash @ ''times E_{f}$''"

definition field_names :: "string list" where
  "field_names = [''hbar w_x (meV)'', ''w_y/ w_x'', ''B (T)'', ''angle (rad)'', ''E1 (meV)'',
     ''E2 (meV)'', ''eVsd (meV)'', ''hbar w_c (meV)'', ''Zeeman (meV)'']"

definition note_text :: string where
  "note_text = ''Note: The angle is in radian with respect to the normal of the 2DEG, i.e. a perpendicular field will have angle 0 rad while a parallel field will have angle pi/2 rad.''"

subsection \<open>\<open>plotter\<close>\<close>

text \<open>Lines 79--90: the overlay figure and the empty table.\<close>

definition init_graph :: "int \<Rightarrow> string \<Rightarrow> pstate" where
  "init_graph channels graph_name =
     \<lparr>events =
        [Subplots Fig,
         Suptitle Fig graph_name,
         Set_ylabel Fig ylabel_text,
         Set_xlabel Fig xlabel_text,
         Set_ylim Fig 0 (real_of_int channels),
         Set_yticks Fig (np_arange 0 (real_of_int channels + 0.25) 0.25),
         Grid],
      table = [], dydx = [], x_min = None\<rparr>"

text \<open>Line 113: the row added to the table for one model.\<close>

definition summary_row :: "model \<Rightarrow> real list" where
  "summary_row m =
     [hw_x m, hw_y m / hw_x m, magnetic_field m, angle m, E1 m, E2 m, eVsd m, hw_c m,
      zeeman m (1 / 2)]"

text \<open>Lines 120--122: the saturation lookup on the last trace.\<close>

definition saturation :: "int \<Rightarrow> real list \<Rightarrow> real list \<Rightarrow> error + real" where
  "saturation channels x y =
     (case getitem (np_where (map (\<lambda>v. v \<ge> real_of_int channels - 0.1) y)) 0 of
        Inl e \<Rightarrow> Inl e
      | Inr x_min_index \<Rightarrow>
          (case getitem x x_min_index of
             Inl e \<Rightarrow> Inl e
           | Inr v \<Rightarrow> Inr (v + 1)))"

text \<open>
  \<open>attempt s r k\<close>: continue with the value of \<open>r\<close>, or raise its error in state \<open>s\<close>.
\<close>

definition attempt :: "pstate \<Rightarrow> error + 'a \<Rightarrow> ('a \<Rightarrow> outcome) \<Rightarrow> outcome" where
  "attempt s r k = (case r of Inl e \<Rightarrow> Inl (e, s) | Inr v \<Rightarrow> k v)"

text \<open>Lines 119--122: the assignment of \<open>x_min\<close> in the last iteration.\<close>

definition last_index_step :: "int \<Rightarrow> nat \<Rightarrow> real list \<Rightarrow> real list \<Rightarrow> nat \<Rightarrow> pstate \<Rightarrow> outcome" where
  "last_index_step channels plots x y i s =
     (if int i = int plots - 1
      then attempt s (saturation channels x y) (\<lambda>xm. Inr (s\<lparr>x_min := Some xm\<rparr>))
      else Inr s)"

text \<open>Lines 101--124: one iteration of the loop, for index \<open>i\<close>.\<close>

definition body ::
  "('m \<Rightarrow> real \<Rightarrow> real \<Rightarrow> real \<Rightarrow> real \<Rightarrow> real \<Rightarrow> model) \<Rightarrow> 'm \<Rightarrow> real list list \<Rightarrow> int \<Rightarrow> real \<Rightarrow>
   nat \<Rightarrow> real list \<Rightarrow> real list \<Rightarrow> nat \<Rightarrow> pstate \<Rightarrow> outcome" where
  "body Model material exp_setup channels offset plots x x_diff i s =
     attempt s (getitem exp_setup i) (\<lambda>experiment.
     attempt s (getitem experiment 0) (\<lambda>hwx.
     attempt s (getitem experiment 1) (\<lambda>ratio.
     let hwy = ratio * hwx in
     attempt s (getitem experiment 2) (\<lambda>V_sd.
     attempt s (getitem experiment 3) (\<lambda>B.
     attempt s (getitem experiment 4) (\<lambda>ang.
     let m = Model material hwx hwy V_sd B ang;
         s1 = s\<lparr>table := table s @ [summary_row m]\<rparr>;
         y = total_transmission m channels (map (\<lambda>v. v - real i * offset) x);
         y_diff = total_transmission m channels x_diff
     in
     if length x \<noteq> length y then Inl (ValueError, s1)
     else
       (case last_index_step channels plots x y i (emit (Plot Fig x y) s1) of
          Inl err \<Rightarrow> Inl err
        | Inr s3 \<Rightarrow>
            attempt s3 (np_gradient y_diff) (\<lambda>g. Inr (s3\<lparr>dydx := dydx s3 @ [g]\<rparr>)))))))))"

text \<open>Line 100: the loop over the indices, stopping at the first error.\<close>

fun for_loop :: "(nat \<Rightarrow> pstate \<Rightarrow> outcome) \<Rightarrow> nat list \<Rightarrow> pstate \<Rightarrow> outcome" where
  "for_loop f [] s = Inr s"
| "for_loop f (i # is) s = (case f i s of Inl err \<Rightarrow> Inl err | Inr s' \<Rightarrow> for_loop f is s')"

text \<open>Lines 134--146: the contour figure, for a batch of more than one configuration.\<close>

definition diff_plot :: "real \<Rightarrow> string \<Rightarrow> string option \<Rightarrow> nat \<Rightarrow> real \<Rightarrow> pstate \<Rightarrow> outcome" where
  "diff_plot offset graph_name savefig plots xm s =
     (let s1 = emit (Subplots Fig1) s;
          s2 = emit (Suptitle Fig1 (''Diff Conductance '' @ graph_name)) s1;
          s3 = emit (Set_xlabel Fig1 diff_xlabel_text) s2;
          s4 = emit (Set_ylabel Fig1 ''Experiments'') s3;
          s5 = emit (Set_xlim Fig1 0 ((xm - real_of_int (int plots - 3) * offset) * 10)) s4
      in case np_array (dydx s5) of
           Inl e \<Rightarrow> Inl (e, s5)
         | Inr arr \<Rightarrow>
             let s6 = emit (Contourf Fig1 arr) (s5\<lparr>dydx := arr\<rparr>);
                 s7 = emit (Colorbar Fig1) s6
             in (case savefig of
                   None \<Rightarrow> Inr s7
                 | Some file_name \<Rightarrow>
                     Inr (emit (Savefig Fig1 (''./Results/'' @ ''diff_'' @ file_name)) s7)))"

text \<open>Lines 126--151: everything after the loop.\<close>

definition finish :: "real \<Rightarrow> string \<Rightarrow> string option \<Rightarrow> nat \<Rightarrow> pstate \<Rightarrow> outcome" where
  "finish offset graph_name savefig plots s =
     (let s1 = emit (Print_table field_names (table s)) s;
          s2 = emit (Print_line note_text) s1
      in case x_min s2 of
           None \<Rightarrow> Inl (UnboundLocalError, s2)
         | Some xm \<Rightarrow>
             let s3 = emit (Set_xlim Fig (- 1) xm) s2 in
             (case (if plots > 1 then diff_plot offset graph_name savefig plots xm s3
                    else Inr s3) of
                Inl err \<Rightarrow> Inl err
              | Inr s4 \<Rightarrow>
                  let s5 = (case savefig of
                              None \<Rightarrow> s4
                            | Some file_name \<Rightarrow> emit (Savefig Fig (''./Results/'' @ file_name)) s4)
                  in Inr (emit Show s5)))"

text \<open>Lines 93--97: the two sweeps.\<close>

text \<open>
  The literal \<open>0.1\<close> is the double nearest to 1/10; \<open>offset * plots + channels * 6\<close> is a
  float product and a float sum (\<open>channels * 6\<close> is an integer product).
\<close>

definition display_sweep :: "nat \<Rightarrow> real \<Rightarrow> int \<Rightarrow> real list" where
  "display_sweep plots offset channels =
     np_arange (- 2) (float64 (float64 (offset * real plots) + real_of_int (channels * 6)))
       (float64 0.1)"

definition differential_sweep :: "real list" where
  "differential_sweep = np_arange (- 2) 30 (float64 0.1)"

text \<open>
  Two constants of the sweeps: the double nearest to 1/10, and the step between their
  samples, the rounded difference of \<open>-2 + 0.1\<close> and \<open>-2\<close> (0.10000000000000009 when
  printed).
\<close>

definition tenth :: real where
  "tenth = 3602879701896397 / 36028797018963968"

definition sweep_step :: real where
  "sweep_step = 225179981368525 / 2251799813685248"

definition plotter ::
  "('m \<Rightarrow> real \<Rightarrow> real \<Rightarrow> real \<Rightarrow> real \<Rightarrow> real \<Rightarrow> model) \<Rightarrow> 'm \<Rightarrow> real list list \<Rightarrow> int \<Rightarrow> real \<Rightarrow>
   string \<Rightarrow> string \<Rightarrow> string option \<Rightarrow> outcome" where
  "plotter Model material exp_setup channels offset graph_name fmt savefig =
     (let s0 = init_graph channels graph_name;
          plots = length exp_setup;
          x = display_sweep plots offset channels;
          x_diff = differential_sweep
      in case for_loop (body Model material exp_setup channels offset plots x x_diff)
                [0..<plots] s0 of
           Inl err \<Rightarrow> Inl err
         | Inr s \<Rightarrow> finish offset graph_name savefig plots s)"

subsection \<open>Reading the outcome of a run\<close>

text \<open>The state a run ended in, and the error it raised, if any.\<close>

fun final_state :: "outcome \<Rightarrow> pstate" where
  "final_state (Inl (e, s)) = s"
| "final_state (Inr s) = s"

fun raised :: "outcome \<Rightarrow> error option" where
  "raised (Inl (e, s)) = Some e"
| "raised (Inr s) = None"

text \<open>Selections of recorded calls.\<close>

fun is_savefig :: "event \<Rightarrow> bool" where
  "is_savefig (Savefig f p) = True"
| "is_savefig _ = False"

fun is_plot :: "event \<Rightarrow> bool" where
  "is_plot (Plot f a b) = True"
| "is_plot _ = False"

fun is_contourf :: "event \<Rightarrow> bool" where
  "is_contourf (Contourf f z) = True"
| "is_contourf _ = False"

fun is_xlim :: "figure \<Rightarrow> event \<Rightarrow> bool" where
  "is_xlim f (Set_xlim g a b) = (f = g)"
| "is_xlim f _ = False"

subsection \<open>The values computed for configuration \<open>i\<close>\<close>

text \<open>
  The model built in iteration \<open>i\<close> (lines 102--110), its overlay trace (line 116) and
  its differential trace (line 117), as functions of the inputs.
\<close>

definition model_at :: "('m \<Rightarrow> real \<Rightarrow> real \<Rightarrow> real \<Rightarrow> real \<Rightarrow> real \<Rightarrow> model) \<Rightarrow> 'm \<Rightarrow> real list list \<Rightarrow> nat \<Rightarrow> model" where
  "model_at Model material exp_setup i =
     (let experiment = exp_setup ! i;
          hwx = experiment ! 0;
          hwy = experiment ! 1 * hwx
      in Model material hwx hwy (experiment ! 2) (experiment ! 3) (experiment ! 4))"

definition overlay_trace ::
  "('m \<Rightarrow> real \<Rightarrow> real \<Rightarrow> real \<Rightarrow> real \<Rightarrow> real \<Rightarrow> model) \<Rightarrow> 'm \<Rightarrow> real list list \<Rightarrow> int \<Rightarrow> real \<Rightarrow> real list \<Rightarrow> nat \<Rightarrow> real list" where
  "overlay_trace Model material exp_setup channels offset x i =
     total_transmission (model_at Model material exp_setup i) channels
       (map (\<lambda>v. v - real i * offset) x)"

definition diff_trace ::
  "('m \<Rightarrow> real \<Rightarrow> real \<Rightarrow> real \<Rightarrow> real \<Rightarrow> real \<Rightarrow> model) \<Rightarrow> 'm \<Rightarrow> real list list \<Rightarrow> int \<Rightarrow> real list \<Rightarrow> nat \<Rightarrow> real list" where
  "diff_trace Model material exp_setup channels x_diff i =
     total_transmission (model_at Model material exp_setup i) channels x_diff"

text \<open>
  The interface of \<open>total_transmission\<close>: the result has one conductance per energy.
\<close>

definition length_preserving :: "model \<Rightarrow> bool" where
  "length_preserving m \<longleftrightarrow>
     (\<forall>channels energy. length (total_transmission m channels energy) = length energy)"

text \<open>
  The calls of lines 136--144 for the contour figure, and the call of \<open>savefig\<close> on a
  figure when a name is given.
\<close>

definition contour_events :: "real \<Rightarrow> string \<Rightarrow> nat \<Rightarrow> real \<Rightarrow> real list list \<Rightarrow> event list" where
  "contour_events offset graph_name plots xm rows =
     [Subplots Fig1,
      Suptitle Fig1 (''Diff Conductance '' @ graph_name),
      Set_xlabel Fig1 diff_xlabel_text,
      Set_ylabel Fig1 ''Experiments'',
      Set_xlim Fig1 0 ((xm - real_of_int (int plots - 3) * offset) * 10),
      Contourf Fig1 rows,
      Colorbar Fig1]"

definition save_events :: "figure \<Rightarrow> string \<Rightarrow> string option \<Rightarrow> event list" where
  "save_events f prefix savefig =
     (case savefig of None \<Rightarrow> [] | Some file_name \<Rightarrow> [Savefig f (''./Results/'' @ prefix @ file_name)])"

subsection \<open>Example inputs\<close>

text \<open>
  A material table and two model classes with the interface of \<open>Model\<close>, used to run
  \<open>plotter\<close> on concrete batches: a model whose transmission steps from 0 to
  \<open>channels\<close> at energy 0, and one whose transmission is 0 everywhere.
\<close>

definition GaAs :: "(string \<times> real \<times> real) list" where
  "GaAs = [(''GaAs'', 1.5, 0.067)]"

definition step_model ::
  "(string \<times> real \<times> real) list \<Rightarrow> real \<Rightarrow> real \<Rightarrow> real \<Rightarrow> real \<Rightarrow> real \<Rightarrow> model" where
  "step_model material hwx hwy V B ang =
     \<lparr>hw_x = hwx, hw_y = hwy, magnetic_field = B, angle = ang, E1 = hwx / 2, E2 = 3 * hwx / 2,
      eVsd = V, hw_c = B, zeeman = (\<lambda>sp. sp * B),
      total_transmission = (\<lambda>ch energy. map (\<lambda>v. if v \<ge> 0 then real_of_int ch else 0) energy)\<rparr>"

definition flat_model ::
  "(string \<times> real \<times> real) list \<Rightarrow> real \<Rightarrow> real \<Rightarrow> real \<Rightarrow> real \<Rightarrow> real \<Rightarrow> model" where
  "flat_model material hwx hwy V B ang =
     \<lparr>hw_x = hwx, hw_y = hwy, magnetic_field = B, angle = ang, E1 = hwx / 2, E2 = 3 * hwx / 2,
      eVsd = V, hw_c = B, zeeman = (\<lambda>sp. sp * B),
      total_transmission = (\<lambda>ch energy. map (\<lambda>v. 0) energy)\<rparr>"

definition two_rows :: "real list list" where
  "two_rows = [[2, 1, 0, 0, 0], [2, 1, 0, 1, 0]]"

definition one_row :: "real list list" where
  "one_row = [[2, 1, 0, 0, 0]]"

section \<open>Auxiliary lemmas\<close>

subsection \<open>Errors and the loop body\<close>

lemma emit_simps [simp]:
  "events (emit e s) = events s @ [e]" "table (emit e s) = table s"
  "dydx (emit e s) = dydx s" "x_min (emit e s) = x_min s"
  by (simp_all add: emit_def)

lemma attempt_Inl [simp]: "attempt s (Inl e) k = Inl (e, s)"
  by (simp add: attempt_def)

lemma attempt_Inr [simp]: "attempt s (Inr v) k = k v"
  by (simp add: attempt_def)

lemma getitem_Inr: "getitem xs k = Inr v \<longleftrightarrow> k < length xs \<and> v = xs ! k"
  by (auto simp: getitem_def)

lemma getitem_Inl: "getitem xs k = Inl e \<longleftrightarrow> \<not> k < length xs \<and> e = IndexError"
  by (auto simp: getitem_def)

lemma last_index_step_Inr:
  assumes "last_index_step channels plots x y i s = Inr s'"
  shows "events s' = events s \<and> table s' = table s \<and> dydx s' = dydx s \<and>
         (if int i = int plots - 1 then \<exists>xm. saturation channels x y = Inr xm \<and> x_min s' = Some xm
          else x_min s' = x_min s)"
  using assms by (auto simp: last_index_step_def attempt_def split: if_splits sum.splits)

lemma last_index_step_Inl:
  assumes "last_index_step channels plots x y i s = Inl (e, s')"
  shows "s' = s \<and> int i = int plots - 1 \<and> saturation channels x y = Inl e"
  using assms by (auto simp: last_index_step_def attempt_def split: if_splits sum.splits)

lemma body_Inr:
  assumes "body Model material exp_setup channels offset plots x x_diff i s = Inr s'"
  shows "i < length exp_setup \<and> 5 \<le> length (exp_setup ! i) \<and>
         length (overlay_trace Model material exp_setup channels offset x i) = length x \<and>
         table s' = table s @ [summary_row (model_at Model material exp_setup i)] \<and>
         events s' = events s @ [Plot Fig x (overlay_trace Model material exp_setup channels offset x i)] \<and>
         (\<exists>g. np_gradient (diff_trace Model material exp_setup channels x_diff i) = Inr g \<and>
              dydx s' = dydx s @ [g]) \<and>
         (if int i = int plots - 1
          then \<exists>xm. saturation channels x (overlay_trace Model material exp_setup channels offset x i) = Inr xm
                    \<and> x_min s' = Some xm
          else x_min s' = x_min s)"
proof -
  from assms have i: "i < length exp_setup"
    by (auto simp: body_def attempt_def getitem_def split: if_splits sum.splits)
  from assms i have l: "4 < length (exp_setup ! i)"
    by (auto simp: body_def attempt_def getitem_def Let_def split: if_splits sum.splits)
  let ?y = "overlay_trace Model material exp_setup channels offset x i"
  let ?m = "model_at Model material exp_setup i"
  let ?s1 = "s\<lparr>table := table s @ [summary_row ?m]\<rparr>"
  from assms i l have len: "length ?y = length x"
    by (auto simp: body_def getitem_def Let_def overlay_trace_def model_at_def split: if_splits sum.splits)
  from assms i l len obtain s3 where
    s3: "last_index_step channels plots x ?y i (emit (Plot Fig x ?y) ?s1) = Inr s3"
    and g: "attempt s3 (np_gradient (diff_trace Model material exp_setup channels x_diff i))
              (\<lambda>g. Inr (s3\<lparr>dydx := dydx s3 @ [g]\<rparr>)) = Inr s'"
    by (auto simp: body_def getitem_def Let_def overlay_trace_def diff_trace_def model_at_def split: if_splits sum.splits)
  from g obtain gr where gr: "np_gradient (diff_trace Model material exp_setup channels x_diff i) = Inr gr"
    and s': "s' = s3\<lparr>dydx := dydx s3 @ [gr]\<rparr>"
    by (auto simp: attempt_def split: sum.splits)
  from last_index_step_Inr[OF s3] i l len gr s' show ?thesis
    by (auto simp: emit_def split: if_splits)
qed

lemma body_Inl:
  assumes "body Model material exp_setup channels offset plots x x_diff i s = Inl (e, s')"
  shows "events s' = events s \<or>
         events s' = events s @ [Plot Fig x (overlay_trace Model material exp_setup channels offset x i)]"
  using assms
  by (auto simp: body_def attempt_def getitem_def Let_def overlay_trace_def model_at_def emit_def
        last_index_step_def split: if_splits sum.splits)

lemma body_completes:
  assumes "i < length exp_setup" and "5 \<le> length (exp_setup ! i)"
    and "length (overlay_trace Model material exp_setup channels offset x i) = length x"
    and "np_gradient (diff_trace Model material exp_setup channels x_diff i) = Inr g"
    and "int i = int plots - 1 \<longrightarrow>
           saturation channels x (overlay_trace Model material exp_setup channels offset x i) = Inr xm"
  shows "\<exists>s'. body Model material exp_setup channels offset plots x x_diff i s = Inr s'"
  using assms
  by (auto simp: body_def getitem_def Let_def overlay_trace_def diff_trace_def model_at_def
        last_index_step_def split: sum.splits)

lemma body_saturation_fails:
  assumes "i < length exp_setup" and "5 \<le> length (exp_setup ! i)"
    and "length (overlay_trace Model material exp_setup channels offset x i) = length x"
    and "int i = int plots - 1"
    and "saturation channels x (overlay_trace Model material exp_setup channels offset x i) = Inl e"
  shows "body Model material exp_setup channels offset plots x x_diff i s =
           Inl (e, emit (Plot Fig x (overlay_trace Model material exp_setup channels offset x i))
                     (s\<lparr>table := table s @ [summary_row (model_at Model material exp_setup i)]\<rparr>))"
  using assms
  by (auto simp: body_def getitem_def Let_def overlay_trace_def diff_trace_def model_at_def
        last_index_step_def split: sum.splits)

lemma for_loop_append:
  "for_loop f (is @ js) s = (case for_loop f is s of Inl err \<Rightarrow> Inl err | Inr s' \<Rightarrow> for_loop f js s')"
  by (induction "is" arbitrary: s) (auto split: sum.splits)

lemma for_loop_Inr:
  assumes "for_loop (body Model material exp_setup channels offset plots x x_diff) is s = Inr s'"
  shows "(\<forall>i \<in> set is. i < length exp_setup \<and> 5 \<le> length (exp_setup ! i) \<and>
            length (overlay_trace Model material exp_setup channels offset x i) = length x) \<and>
         table s' = table s @ map (\<lambda>i. summary_row (model_at Model material exp_setup i)) is \<and>
         events s' = events s @
            map (\<lambda>i. Plot Fig x (overlay_trace Model material exp_setup channels offset x i)) is \<and>
         (\<exists>gs. dydx s' = dydx s @ gs \<and>
               map (\<lambda>i. np_gradient (diff_trace Model material exp_setup channels x_diff i)) is
                 = map Inr gs) \<and>
         (if \<exists>i \<in> set is. int i = int plots - 1
          then \<exists>xm. saturation channels x
                      (overlay_trace Model material exp_setup channels offset x (plots - 1)) = Inr xm
                    \<and> x_min s' = Some xm
          else x_min s' = x_min s)"
  using assms
proof (induction "is" arbitrary: s)
  case Nil
  then show ?case by simp
next
  case (Cons i "is")
  from Cons.prems obtain s1 where
    b: "body Model material exp_setup channels offset plots x x_diff i s = Inr s1"
    and r: "for_loop (body Model material exp_setup channels offset plots x x_diff) is s1 = Inr s'"
    by (auto split: sum.splits)
  note B = body_Inr[OF b]
  note IH = Cons.IH[OF r]
  from B obtain g where g: "np_gradient (diff_trace Model material exp_setup channels x_diff i) = Inr g"
    and d1: "dydx s1 = dydx s @ [g]" by blast
  from IH obtain gs where gs: "dydx s' = dydx s1 @ gs"
    and m: "map (\<lambda>i. np_gradient (diff_trace Model material exp_setup channels x_diff i)) is = map Inr gs"
    by blast
  have D: "\<exists>gs. dydx s' = dydx s @ gs \<and>
               map (\<lambda>i. np_gradient (diff_trace Model material exp_setup channels x_diff i)) (i # is)
                 = map Inr gs"
    using g d1 gs m by (intro exI[of _ "g # gs"]) simp
  have X: "if \<exists>j \<in> set (i # is). int j = int plots - 1
          then \<exists>xm. saturation channels x
                      (overlay_trace Model material exp_setup channels offset x (plots - 1)) = Inr xm
                    \<and> x_min s' = Some xm
          else x_min s' = x_min s"
  proof (cases "\<exists>j \<in> set is. int j = int plots - 1")
    case True
    with IH show ?thesis by auto
  next
    case False
    with IH have e: "x_min s' = x_min s1" by auto
    show ?thesis
    proof (cases "int i = int plots - 1")
      case True
      then have "i = plots - 1" by linarith
      with True B e show ?thesis by auto
    next
      case False
      with \<open>\<not> (\<exists>j \<in> set is. int j = int plots - 1)\<close> B e show ?thesis by auto
    qed
  qed
  from B IH D X show ?case by simp
qed

lemma for_loop_events:
  "ev \<in> set (events (final_state
      (for_loop (body Model material exp_setup channels offset plots x x_diff) is s))) \<Longrightarrow>
   ev \<in> set (events s) \<or> (\<exists>y. ev = Plot Fig x y)"
proof (induction "is" arbitrary: s)
  case Nil
  then show ?case by simp
next
  case (Cons i "is")
  show ?case
  proof (cases "body Model material exp_setup channels offset plots x x_diff i s")
    case (Inl err)
    obtain e s1 where err: "err = (e, s1)" by (cases err)
    from body_Inl[OF Inl[unfolded err]] Cons.prems Inl err show ?thesis by auto
  next
    case (Inr s1)
    with Cons.prems have "ev \<in> set (events (final_state
      (for_loop (body Model material exp_setup channels offset plots x x_diff) is s1)))" by simp
    from Cons.IH[OF this] body_Inr[OF Inr] show ?thesis by auto
  qed
qed

lemma np_array_Inr: "np_array rows = Inr arr \<Longrightarrow> arr = rows"
  by (auto simp: np_array_def split: if_splits)

lemma diff_plot_Inr:
  assumes "diff_plot offset graph_name savefig plots xm s = Inr s'"
  shows "events s' = events s @ contour_events offset graph_name plots xm (dydx s)
                       @ save_events Fig1 ''diff_'' savefig \<and>
         table s' = table s \<and> dydx s' = dydx s \<and> x_min s' = x_min s"
  using assms
  by (auto simp: diff_plot_def Let_def emit_def contour_events_def save_events_def
        dest!: np_array_Inr split: sum.splits option.splits)

lemma diff_plot_Inl:
  assumes "diff_plot offset graph_name savefig plots xm s = Inl (e, s')"
  shows "e = ValueError \<and> np_array (dydx s) = Inl ValueError \<and>
         events s' = events s @ take 5 (contour_events offset graph_name plots xm (dydx s))"
  using assms
  by (auto simp: diff_plot_def Let_def emit_def contour_events_def np_array_def
        split: sum.splits option.splits if_splits)

lemma finish_Inr:
  assumes "finish offset graph_name savefig plots s = Inr s'"
  shows "\<exists>xm. x_min s = Some xm \<and>
           events s' = events s @
             [Print_table field_names (table s), Print_line note_text, Set_xlim Fig (- 1) xm] @
             (if plots > 1
              then contour_events offset graph_name plots xm (dydx s) @ save_events Fig1 ''diff_'' savefig
              else []) @
             save_events Fig [] savefig @ [Show] \<and>
         table s' = table s \<and> dydx s' = dydx s \<and> x_min s' = x_min s"
proof -
  from assms obtain xm where xm: "x_min s = Some xm"
    by (auto simp: finish_def Let_def emit_def split: option.splits)
  let ?s3 = "emit (Set_xlim Fig (- 1) xm)
              (emit (Print_line note_text) (emit (Print_table field_names (table s)) s))"
  from assms xm obtain s4 where
    s4: "(if plots > 1 then diff_plot offset graph_name savefig plots xm ?s3 else Inr ?s3) = Inr s4"
    and s': "s' = emit Show (case savefig of None \<Rightarrow> s4
               | Some file_name \<Rightarrow> emit (Savefig Fig (''./Results/'' @ file_name)) s4)"
    by (auto simp: finish_def Let_def split: sum.splits)
  show ?thesis
  proof (cases "plots > 1")
    case True
    with s4 have "diff_plot offset graph_name savefig plots xm ?s3 = Inr s4" by simp
    from diff_plot_Inr[OF this] s' xm True show ?thesis
      by (auto simp: emit_def save_events_def split: option.splits)
  next
    case False
    with s4 have "s4 = ?s3" by simp
    with s' xm False show ?thesis
      by (auto simp: emit_def save_events_def split: option.splits)
  qed
qed

lemma finish_Inl:
  assumes "finish offset graph_name savefig plots s = Inl (e, s')"
  shows "(x_min s = None \<and> e = UnboundLocalError \<and>
            events s' = events s @ [Print_table field_names (table s), Print_line note_text]) \<or>
         (\<exists>xm. x_min s = Some xm \<and> plots > 1 \<and> e = ValueError \<and> np_array (dydx s) = Inl ValueError \<and>
            events s' = events s @
              [Print_table field_names (table s), Print_line note_text, Set_xlim Fig (- 1) xm] @
              take 5 (contour_events offset graph_name plots xm (dydx s)))"
proof (cases "x_min s")
  case None
  with assms show ?thesis
    by (auto simp: finish_def Let_def emit_def)
next
  case (Some xm)
  let ?s3 = "emit (Set_xlim Fig (- 1) xm)
              (emit (Print_line note_text) (emit (Print_table field_names (table s)) s))"
  from assms Some have p: "plots > 1" and
    d: "diff_plot offset graph_name savefig plots xm ?s3 = Inl (e, s')"
    by (auto simp: finish_def Let_def split: sum.splits if_splits)
  from diff_plot_Inl[OF d] Some p show ?thesis
    by (auto simp: emit_def)
qed

lemma finish_x_min_None:
  "x_min s = None \<Longrightarrow>
   finish offset graph_name savefig plots s =
     Inl (UnboundLocalError,
          emit (Print_line note_text) (emit (Print_table field_names (table s)) s))"
  by (simp add: finish_def Let_def emit_def)

lemma finish_completes:
  assumes "x_min s = Some xm" and "plots > 1 \<longrightarrow> np_array (dydx s) = Inr (dydx s)"
  shows "\<exists>s'. finish offset graph_name savefig plots s = Inr s'"
  using assms
  by (auto simp: finish_def diff_plot_def Let_def emit_def split: sum.splits option.splits)

subsection \<open>The NumPy functions\<close>

lemmas float64_eval = float64_def rne_def compute_floorlog Let_def

lemma rne_error: "\<bar>of_int (rne t) - t\<bar> \<le> 1 / 2"
proof -
  have "of_int \<lfloor>t\<rfloor> \<le> t" and "t < of_int \<lfloor>t\<rfloor> + 1" by linarith+
  then show ?thesis
    by (auto simp: rne_def Let_def)
qed

lemma scaled_error:
  assumes "0 < u"
  shows "\<bar>of_int (rne (x / u)) * u - x\<bar> \<le> u / 2"
proof -
  have "of_int (rne (x / u)) * u - x = (of_int (rne (x / u)) - x / u) * u"
    using assms by (simp add: field_simps)
  then have "\<bar>of_int (rne (x / u)) * u - x\<bar> = \<bar>of_int (rne (x / u)) - x / u\<bar> * u"
    using assms by (simp add: abs_mult)
  also have "\<dots> \<le> 1 / 2 * u"
    using rne_error[of "x / u"] assms by (intro mult_right_mono) auto
  finally show ?thesis by simp
qed

lemma float64_error:
  assumes "\<bar>x\<bar> < 2 ^ m"
  shows "\<bar>float64 x - x\<bar> \<le> 2 ^ m / 2 ^ 54"
proof (cases "x = 0")
  case True
  then show ?thesis by (simp add: float64_def)
next
  case False
  show ?thesis
  proof (cases "\<bar>x\<bar> \<ge> 1")
    case True
    define a where "a = nat \<lfloor>\<bar>x\<bar>\<rfloor>"
    define n where "n = floorlog 2 a - 1"
    from True have a: "0 < a" unfolding a_def by linarith
    have "real a \<le> \<bar>x\<bar>" unfolding a_def using True by linarith
    moreover from floorlog_bounds[OF a, of 2] have "2 ^ n \<le> a" unfolding n_def by simp
    then have "(2::real) ^ n \<le> real a"
      by (metis of_nat_le_iff of_nat_numeral of_nat_power)
    ultimately have "(2::real) ^ n < 2 ^ m" using assms by linarith
    then have "n < m" by simp
    then have "Suc n \<le> m" by simp
    then have le: "(2::real) ^ Suc n \<le> 2 ^ m" by (intro power_increasing) auto
    let ?u = "(2::real) ^ n / 2 ^ 52"
    have fl: "float64 x = of_int (rne (x / ?u)) * ?u"
      using False True by (simp add: float64_def Let_def a_def n_def)
    have "\<bar>float64 x - x\<bar> \<le> ?u / 2"
      unfolding fl by (rule scaled_error) simp
    also have "\<dots> = 2 ^ Suc n / 2 ^ 54" by simp
    also have "\<dots> \<le> 2 ^ m / 2 ^ 54" using le by (intro divide_right_mono) auto
    finally show ?thesis .
  next
    case small: False
    define k where "k = min (floorlog 2 (nat (\<lceil>1 / \<bar>x\<bar>\<rceil> - 1))) 1022"
    from small False have "1 < 1 / \<bar>x\<bar>" by simp
    then have "2 \<le> \<lceil>1 / \<bar>x\<bar>\<rceil>" by linarith
    then have "0 < nat (\<lceil>1 / \<bar>x\<bar>\<rceil> - 1)" by simp
    then have "1 \<le> floorlog 2 (nat (\<lceil>1 / \<bar>x\<bar>\<rceil> - 1))"
      by (simp add: floorlog_def)
    then have k: "1 \<le> k" unfolding k_def by simp
    let ?u = "1 / ((2::real) ^ 52 * 2 ^ k)"
    have fl: "float64 x = of_int (rne (x / ?u)) * ?u"
      using False small by (simp add: float64_def Let_def k_def mult.assoc)
    have "\<bar>float64 x - x\<bar> \<le> ?u / 2"
      unfolding fl by (rule scaled_error) simp
    also have "\<dots> = 1 / (2 ^ 53 * 2 ^ k)" by simp
    also have "\<dots> \<le> 1 / (2 ^ 53 * 2 ^ 1)"
      using k by (intro divide_left_mono mult_left_mono power_increasing) auto
    also have "\<dots> = 1 / 2 ^ 54" by simp
    also have "\<dots> \<le> 2 ^ m / 2 ^ 54" by (intro divide_right_mono) auto
    finally show ?thesis .
  qed
qed

lemma float64_tenth: "float64 0.1 = tenth"
  by (simp add: float64_eval tenth_def)

lemma float64_next: "float64 (- 2 + tenth) = - 2 + sweep_step"
  by (simp add: float64_eval tenth_def sweep_step_def)

lemma float64_delta: "float64 (- 2 + sweep_step - - 2) = sweep_step"
  by (simp add: float64_eval sweep_step_def)

lemma float64_first: "float64 (- 2 + float64 (real 0 * sweep_step)) = - 2"
  by (simp add: float64_eval)

lemma float64_second: "float64 (- 2 + float64 (real 1 * sweep_step)) = - 2 + sweep_step"
  by (simp add: float64_eval sweep_step_def)

lemma np_arange_tenth:
  "np_arange (- 2) stop (float64 0.1) =
     map (\<lambda>i. float64 (- 2 + float64 (real i * sweep_step)))
       [0..<nat \<lceil>float64 (float64 (stop - - 2) / tenth)\<rceil>]"
proof -
  have "(if i = 0 then - 2 else if i = 1 then - 2 + sweep_step
         else float64 (- 2 + float64 (real i * sweep_step)))
        = float64 (- 2 + float64 (real i * sweep_step))" for i :: nat
    using float64_first float64_second by auto
  then show ?thesis
    unfolding np_arange_def Let_def float64_tenth float64_next float64_delta
    by simp
qed

lemma differential_sweep_samples:
  "differential_sweep = map (\<lambda>i. float64 (- 2 + float64 (real i * sweep_step))) [0..<320]"
proof -
  have "nat \<lceil>float64 (float64 (30 - - 2) / tenth)\<rceil> = 320"
    by (simp add: float64_eval tenth_def)
  then show ?thesis
    by (simp only: differential_sweep_def np_arange_tenth)
qed

lemma length_differential_sweep: "length differential_sweep = 320"
  by (simp add: differential_sweep_samples)

lemma display_sweep_samples:
  "display_sweep plots offset channels =
     map (\<lambda>i. float64 (- 2 + float64 (real i * sweep_step)))
       [0..<nat \<lceil>float64 (float64 (float64 (float64 (offset * real plots)
                         + real_of_int (channels * 6)) - - 2) / tenth)\<rceil>]"
  by (simp only: display_sweep_def np_arange_tenth)

lemma sample_error:
  assumes "i \<le> 319"
  shows "\<bar>float64 (- 2 + float64 (real i * sweep_step)) - (- 2 + real i * sweep_step)\<bar>
           \<le> 1 / 2 ^ 48"
proof -
  let ?a = "real i * sweep_step"
  from assms have "real i \<le> 319" by simp
  then have a: "0 \<le> ?a" "?a \<le> 319 * sweep_step"
    by (simp_all add: sweep_step_def)
  then have "\<bar>?a\<bar> < 2 ^ 5" by (simp add: sweep_step_def)
  from float64_error[OF this] have e1: "\<bar>float64 ?a - ?a\<bar> \<le> 1 / 2 ^ 49" by simp
  with a have "\<bar>- 2 + float64 ?a\<bar> < 2 ^ 5" by (simp add: sweep_step_def abs_if split: if_splits)
  from float64_error[OF this]
  have e2: "\<bar>float64 (- 2 + float64 ?a) - (- 2 + float64 ?a)\<bar> \<le> 1 / 2 ^ 49" by simp
  from e1 e2 show ?thesis by (simp add: abs_if split: if_splits)
qed

lemma np_gradient_length:
  assumes "np_gradient f = Inr g"
  shows "length g = length f \<and> 2 \<le> length f"
proof (cases "length f < 2")
  case True
  with assms show ?thesis by (simp add: np_gradient_def)
next
  case False
  with assms have "g = map (\<lambda>k. if k = 0 then f ! 1 - f ! 0
                          else if k = length f - 1 then f ! (length f - 1) - f ! (length f - 2)
                          else (f ! (k + 1) - f ! (k - 1)) / 2) [0..<length f]"
    by (simp add: np_gradient_def Let_def)
  then have "length g = length f" by simp
  with False show ?thesis by simp
qed

lemma np_gradient_defined: "2 \<le> length f \<Longrightarrow> \<exists>g. np_gradient f = Inr g"
  by (simp add: np_gradient_def Let_def)

lemma np_gradient_values:
  assumes "np_gradient f = Inr g" and "k < length f"
  shows "g ! k = (if k = 0 then f ! 1 - f ! 0
                  else if k = length f - 1 then f ! (length f - 1) - f ! (length f - 2)
                  else (f ! (k + 1) - f ! (k - 1)) / 2)"
proof (cases "length f < 2")
  case True
  with assms show ?thesis by (simp add: np_gradient_def)
next
  case False
  with assms(1) have "g = map (\<lambda>k. if k = 0 then f ! 1 - f ! 0
                          else if k = length f - 1 then f ! (length f - 1) - f ! (length f - 2)
                          else (f ! (k + 1) - f ! (k - 1)) / 2) [0..<length f]"
    by (simp add: np_gradient_def Let_def)
  with assms(2) show ?thesis by simp
qed

lemma np_where_first:
  assumes "k < length c" and "c ! k" and "\<forall>j<k. \<not> c ! j"
  shows "\<exists>rest. np_where c = k # rest"
proof -
  have "[0..<k + (length c - k)] = [0..<k] @ [k..<k + (length c - k)]"
    by (rule upt_add_eq_append) simp
  with assms(1) have front_eq: "[0..<length c] = [0..<k] @ [k..<length c]"
    by simp
  have rest_eq: "[k..<length c] = k # [Suc k..<length c]"
    using assms(1) by (rule upt_conv_Cons)
  have none: "filter (\<lambda>j. c ! j) [0..<k] = []"
    using assms(3) by (simp add: filter_empty_conv)
  have "np_where c = filter (\<lambda>j. c ! j) [0..<k] @ filter (\<lambda>j. c ! j) [k..<length c]"
    unfolding np_where_def by (subst front_eq) (rule filter_append)
  also have "\<dots> = filter (\<lambda>j. c ! j) (k # [Suc k..<length c])"
    by (simp only: none rest_eq append_Nil)
  also have "\<dots> = k # filter (\<lambda>j. c ! j) [Suc k..<length c]"
    using assms(2) by simp
  finally show ?thesis by (rule exI)
qed

lemma np_where_empty:
  assumes "\<forall>v \<in> set c. \<not> v"
  shows "np_where c = []"
proof -
  have "\<not> c ! k" if "k < length c" for k
    using assms that nth_mem by blast
  then show ?thesis
    unfolding np_where_def by (simp add: filter_empty_conv)
qed

lemma saturation_first:
  assumes "length y = length x" and "k < length y"
    and "y ! k \<ge> real_of_int channels - 0.1"
    and "\<forall>j<k. \<not> y ! j \<ge> real_of_int channels - 0.1"
  shows "saturation channels x y = Inr (x ! k + 1)"
proof -
  let ?c = "map (\<lambda>v. v \<ge> real_of_int channels - 0.1) y"
  have "\<exists>rest. np_where ?c = k # rest"
    using assms by (intro np_where_first) auto
  then show ?thesis
    using assms(1,2) by (auto simp: saturation_def getitem_def)
qed

lemma saturation_none:
  assumes "\<forall>v \<in> set y. \<not> v \<ge> real_of_int channels - 0.1"
  shows "saturation channels x y = Inl IndexError"
proof -
  have "np_where (map (\<lambda>v. v \<ge> real_of_int channels - 0.1) y) = []"
    using assms by (intro np_where_empty) auto
  then show ?thesis by (simp add: saturation_def getitem_def)
qed

lemma saturation_Inr_ex:
  assumes "length y = length x" and "\<exists>v \<in> set y. v \<ge> real_of_int channels - 0.1"
  shows "\<exists>k. k < length y \<and> y ! k \<ge> real_of_int channels - 0.1 \<and>
             (\<forall>j<k. \<not> y ! j \<ge> real_of_int channels - 0.1) \<and>
             saturation channels x y = Inr (x ! k + 1)"
proof -
  let ?P = "\<lambda>k. k < length y \<and> y ! k \<ge> real_of_int channels - 0.1"
  from assms(2) have ex: "\<exists>k. ?P k" by (auto simp: in_set_conv_nth)
  define k where "k = (LEAST k. ?P k)"
  from ex have P: "?P k" unfolding k_def by (rule LeastI_ex)
  have least: "\<forall>j<k. \<not> y ! j \<ge> real_of_int channels - 0.1"
  proof (intro allI impI)
    fix j assume "j < k"
    then have "\<not> ?P j" unfolding k_def by (rule not_less_Least)
    moreover from \<open>j < k\<close> P have "j < length y" by simp
    ultimately show "\<not> y ! j \<ge> real_of_int channels - 0.1" by simp
  qed
  from saturation_first[OF assms(1) _ _ least] P show ?thesis
    using least by blast
qed

subsection \<open>Whole runs of \<open>plotter\<close>\<close>

lemma init_graph_fields [simp]:
  "table (init_graph channels graph_name) = []"
  "dydx (init_graph channels graph_name) = []"
  "x_min (init_graph channels graph_name) = None"
  by (simp_all add: init_graph_def)

lemma init_graph_events:
  "ev \<in> set (events (init_graph channels graph_name)) \<Longrightarrow>
   (\<forall>f p. ev \<noteq> Savefig f p) \<and> (\<forall>f z. ev \<noteq> Contourf f z) \<and> ev \<noteq> Show \<and>
   (\<forall>f a b. ev \<noteq> Set_xlim f a b) \<and> (\<forall>f a b. ev \<noteq> Plot f a b)"
  by (auto simp: init_graph_def)

lemma plotter_unfold:
  "plotter Model material exp_setup channels offset graph_name fmt savefig =
     (case for_loop (body Model material exp_setup channels offset (length exp_setup)
                      (display_sweep (length exp_setup) offset channels) differential_sweep)
             [0..<length exp_setup] (init_graph channels graph_name) of
        Inl err \<Rightarrow> Inl err
      | Inr s \<Rightarrow> finish offset graph_name savefig (length exp_setup) s)"
  by (simp add: plotter_def Let_def)

lemma plotter_Inr:
  assumes "plotter Model material exp_setup channels offset graph_name fmt savefig = Inr s"
  shows "1 \<le> length exp_setup \<and>
    (\<forall>i < length exp_setup. 5 \<le> length (exp_setup ! i) \<and>
       length (overlay_trace Model material exp_setup channels offset
                 (display_sweep (length exp_setup) offset channels) i)
         = length (display_sweep (length exp_setup) offset channels)) \<and>
    table s = map (\<lambda>i. summary_row (model_at Model material exp_setup i)) [0..<length exp_setup] \<and>
    map (\<lambda>i. np_gradient (diff_trace Model material exp_setup channels differential_sweep i))
        [0..<length exp_setup] = map Inr (dydx s) \<and>
    (\<exists>xm. saturation channels (display_sweep (length exp_setup) offset channels)
              (overlay_trace Model material exp_setup channels offset
                 (display_sweep (length exp_setup) offset channels) (length exp_setup - 1)) = Inr xm \<and>
          x_min s = Some xm \<and>
          events s = events (init_graph channels graph_name) @
             map (\<lambda>i. Plot Fig (display_sweep (length exp_setup) offset channels)
                        (overlay_trace Model material exp_setup channels offset
                           (display_sweep (length exp_setup) offset channels) i))
                 [0..<length exp_setup] @
             [Print_table field_names (table s), Print_line note_text, Set_xlim Fig (- 1) xm] @
             (if length exp_setup > 1
              then contour_events offset graph_name (length exp_setup) xm (dydx s) @
                   save_events Fig1 ''diff_'' savefig
              else []) @
             save_events Fig [] savefig @ [Show])"
proof -
  let ?n = "length exp_setup"
  let ?x = "display_sweep ?n offset channels"
  from assms obtain s1 where
    loop: "for_loop (body Model material exp_setup channels offset ?n ?x differential_sweep)
             [0..<?n] (init_graph channels graph_name) = Inr s1"
    and fin: "finish offset graph_name savefig ?n s1 = Inr s"
    by (auto simp: plotter_unfold split: sum.splits)
  note L = for_loop_Inr[OF loop]
  note F = finish_Inr[OF fin]
  from F obtain xm where xm: "x_min s1 = Some xm" by blast
  have last_in: "\<exists>i \<in> set [0..<?n]. int i = int ?n - 1"
  proof (rule ccontr)
    assume "\<not> ?thesis"
    with L have "x_min s1 = None" by simp
    with xm show False by simp
  qed
  then have n: "1 \<le> ?n" by auto
  from L last_in obtain xm' where
    sat: "saturation channels ?x (overlay_trace Model material exp_setup channels offset ?x (?n - 1)) = Inr xm'"
    and xm': "x_min s1 = Some xm'" by auto
  from L have d: "map (\<lambda>i. np_gradient (diff_trace Model material exp_setup channels differential_sweep i))
        [0..<?n] = map Inr (dydx s1)" by auto
  from L have t: "table s1 = map (\<lambda>i. summary_row (model_at Model material exp_setup i)) [0..<?n]"
    by simp
  from L have e: "events s1 = events (init_graph channels graph_name) @
      map (\<lambda>i. Plot Fig ?x (overlay_trace Model material exp_setup channels offset ?x i)) [0..<?n]"
    by simp
  from L have w: "\<forall>i < ?n. 5 \<le> length (exp_setup ! i) \<and>
       length (overlay_trace Model material exp_setup channels offset ?x i) = length ?x"
    by simp
  from F xm' have ev: "events s = events s1 @
             [Print_table field_names (table s1), Print_line note_text, Set_xlim Fig (- 1) xm'] @
             (if ?n > 1
              then contour_events offset graph_name ?n xm' (dydx s1) @ save_events Fig1 ''diff_'' savefig
              else []) @
             save_events Fig [] savefig @ [Show]"
    and same: "table s = table s1" "dydx s = dydx s1" "x_min s = x_min s1"
    by auto
  from n w t d sat xm' ev same e show ?thesis by simp
qed

lemma contour_events_no_save:
  "ev \<in> set (take 5 (contour_events offset graph_name plots xm rows)) \<Longrightarrow>
   (\<forall>f p. ev \<noteq> Savefig f p) \<and> (\<forall>f z. ev \<noteq> Contourf f z) \<and> ev \<noteq> Show"
  by (auto simp: contour_events_def)

lemma plotter_Inl:
  assumes "plotter Model material exp_setup channels offset graph_name fmt savefig = Inl (e, s)"
    and "ev \<in> set (events s)"
  shows "(\<forall>f p. ev \<noteq> Savefig f p) \<and> (\<forall>f z. ev \<noteq> Contourf f z) \<and> ev \<noteq> Show"
proof -
  let ?n = "length exp_setup"
  let ?x = "display_sweep ?n offset channels"
  let ?loop = "for_loop (body Model material exp_setup channels offset ?n ?x differential_sweep)
             [0..<?n] (init_graph channels graph_name)"
  have loop_ev: "ev' \<in> set (events (final_state ?loop)) \<Longrightarrow>
      (\<forall>f p. ev' \<noteq> Savefig f p) \<and> (\<forall>f z. ev' \<noteq> Contourf f z) \<and> ev' \<noteq> Show" for ev'
    using for_loop_events[of ev' Model material exp_setup channels offset ?n ?x differential_sweep
            "[0..<?n]" "init_graph channels graph_name"]
      init_graph_events[of ev' channels graph_name]
    by auto
  show ?thesis
  proof (cases ?loop)
    case (Inl err)
    with assms(1) have "err = (e, s)" by (simp add: plotter_unfold)
    with Inl have "final_state ?loop = s" by simp
    with loop_ev[of ev] assms(2) show ?thesis by simp
  next
    case (Inr s1)
    with assms(1) have fin: "finish offset graph_name savefig ?n s1 = Inl (e, s)"
      by (simp add: plotter_unfold)
    from Inr have fs: "final_state ?loop = s1" by simp
    from finish_Inl[OF fin] assms(2) consider
      "ev \<in> set (events s1)" | "ev = Print_table field_names (table s1)" | "ev = Print_line note_text"
      | xm where "ev = Set_xlim Fig (- 1) xm"
      | xm where "ev \<in> set (take 5 (contour_events offset graph_name ?n xm (dydx s1)))"
      by auto
    then show ?thesis
    proof cases
      case 1
      with loop_ev[of ev] fs show ?thesis by simp
    next
      case 5
      then show ?thesis by (rule contour_events_no_save)
    qed auto
  qed
qed

lemma plotter_empty:
  "plotter Model material [] channels offset graph_name fmt savefig =
     Inl (UnboundLocalError,
          emit (Print_line note_text)
            (emit (Print_table field_names []) (init_graph channels graph_name)))"
  by (simp add: plotter_unfold finish_x_min_None)

lemma for_loop_completes:
  assumes "\<forall>i \<in> set is. i < length exp_setup \<and> 5 \<le> length (exp_setup ! i) \<and>
             length (overlay_trace Model material exp_setup channels offset x i) = length x \<and>
             2 \<le> length (diff_trace Model material exp_setup channels x_diff i) \<and>
             (int i = int plots - 1 \<longrightarrow>
                (\<exists>xm. saturation channels x
                        (overlay_trace Model material exp_setup channels offset x i) = Inr xm))"
  shows "\<exists>s'. for_loop (body Model material exp_setup channels offset plots x x_diff) is s = Inr s'"
  using assms
proof (induction "is" arbitrary: s)
  case Nil
  then show ?case by simp
next
  case (Cons i "is")
  from Cons.prems obtain g where
    g: "np_gradient (diff_trace Model material exp_setup channels x_diff i) = Inr g"
    using np_gradient_defined by fastforce
  obtain xm where xm: "int i = int plots - 1 \<longrightarrow>
      saturation channels x (overlay_trace Model material exp_setup channels offset x i) = Inr xm"
    using Cons.prems by fastforce
  from Cons.prems have "i < length exp_setup" "5 \<le> length (exp_setup ! i)"
    "length (overlay_trace Model material exp_setup channels offset x i) = length x"
    by simp_all
  from body_completes[OF this g xm] obtain s1 where
    "body Model material exp_setup channels offset plots x x_diff i s = Inr s1" by blast
  moreover from Cons.IH[of s1] Cons.prems obtain s' where
    "for_loop (body Model material exp_setup channels offset plots x x_diff) is s1 = Inr s'"
    by auto
  ultimately show ?case by simp
qed

lemma traces_well_shaped:
  assumes "i < length exp_setup" and "length_preserving (model_at Model material exp_setup i)"
  shows "length (overlay_trace Model material exp_setup channels offset x i) = length x"
    and "length (diff_trace Model material exp_setup channels differential_sweep i) = 320"
  using assms by (simp_all add: overlay_trace_def diff_trace_def length_preserving_def
      length_differential_sweep)

lemma plotter_completes:
  assumes n: "1 \<le> length exp_setup"
    and rows: "\<forall>e \<in> set exp_setup. 5 \<le> length e"
    and lp: "\<forall>i < length exp_setup. length_preserving (model_at Model material exp_setup i)"
    and sat: "\<exists>v \<in> set (overlay_trace Model material exp_setup channels offset
                 (display_sweep (length exp_setup) offset channels) (length exp_setup - 1)).
                v \<ge> real_of_int channels - 0.1"
  shows "\<exists>s. plotter Model material exp_setup channels offset graph_name fmt savefig = Inr s"
proof -
  let ?n = "length exp_setup"
  let ?x = "display_sweep ?n offset channels"
  have len: "length (overlay_trace Model material exp_setup channels offset ?x i) = length ?x"
    and dlen: "length (diff_trace Model material exp_setup channels differential_sweep i) = 320"
    if "i < ?n" for i
    using lp that by (simp_all add: traces_well_shaped)
  from n have "?n - 1 < ?n" by simp
  from saturation_Inr_ex[OF len[OF this] sat] obtain xm where
    xm: "saturation channels ?x (overlay_trace Model material exp_setup channels offset ?x (?n - 1)) = Inr xm"
    by blast
  have "\<forall>i \<in> set [0..<?n]. i < ?n \<and> 5 \<le> length (exp_setup ! i) \<and>
             length (overlay_trace Model material exp_setup channels offset ?x i) = length ?x \<and>
             2 \<le> length (diff_trace Model material exp_setup channels differential_sweep i) \<and>
             (int i = int ?n - 1 \<longrightarrow>
                (\<exists>xm. saturation channels ?x
                        (overlay_trace Model material exp_setup channels offset ?x i) = Inr xm))"
  proof
    fix i assume "i \<in> set [0..<?n]"
    then have i: "i < ?n" by simp
    have "int i = int ?n - 1 \<longrightarrow> i = ?n - 1" by linarith
    with i rows len[OF i] dlen[OF i] xm
    show "i < ?n \<and> 5 \<le> length (exp_setup ! i) \<and>
             length (overlay_trace Model material exp_setup channels offset ?x i) = length ?x \<and>
             2 \<le> length (diff_trace Model material exp_setup channels differential_sweep i) \<and>
             (int i = int ?n - 1 \<longrightarrow>
                (\<exists>xm. saturation channels ?x
                        (overlay_trace Model material exp_setup channels offset ?x i) = Inr xm))"
      by auto
  qed
  from for_loop_completes[OF this] obtain s1 where
    loop: "for_loop (body Model material exp_setup channels offset ?n ?x differential_sweep)
             [0..<?n] (init_graph channels graph_name) = Inr s1"
    by blast
  note L = for_loop_Inr[OF loop]
  from n have "\<exists>i \<in> set [0..<?n]. int i = int ?n - 1"
    by (intro bexI[of _ "?n - 1"]) auto
  with L obtain xm' where x1: "x_min s1 = Some xm'" by auto
  from L have d: "map (\<lambda>i. np_gradient (diff_trace Model material exp_setup channels differential_sweep i))
        [0..<?n] = map Inr (dydx s1)" by auto
  have "length r = 320" if "r \<in> set (dydx s1)" for r
  proof -
    from that obtain j where j: "j < length (dydx s1)" and r: "r = dydx s1 ! j"
      by (auto simp: in_set_conv_nth)
    from arg_cong[OF d, of length] have "length (dydx s1) = ?n"
      by simp
    with j have jn: "j < ?n" by simp
    from d have "map (\<lambda>i. np_gradient (diff_trace Model material exp_setup channels differential_sweep i))
        [0..<?n] ! j = map Inr (dydx s1) ! j" by simp
    with j jn r have "np_gradient (diff_trace Model material exp_setup channels differential_sweep j) = Inr r"
      by simp
    from np_gradient_length[OF this] dlen[OF jn] show ?thesis by simp
  qed
  then have "\<forall>r \<in> set (dydx s1). length r = length (hd (dydx s1))"
    by (cases "dydx s1") simp_all
  then have "np_array (dydx s1) = Inr (dydx s1)"
    unfolding np_array_def by simp
  with finish_completes[OF x1, of ?n offset graph_name savefig] obtain s where
    "finish offset graph_name savefig ?n s1 = Inr s" by blast
  with loop show ?thesis by (simp add: plotter_unfold)
qed

lemma plotter_saturation_fails:
  assumes n: "1 \<le> length exp_setup"
    and rows: "\<forall>e \<in> set exp_setup. 5 \<le> length e"
    and lp: "\<forall>i < length exp_setup. length_preserving (model_at Model material exp_setup i)"
    and nosat: "\<forall>v \<in> set (overlay_trace Model material exp_setup channels offset
                 (display_sweep (length exp_setup) offset channels) (length exp_setup - 1)).
                \<not> v \<ge> real_of_int channels - 0.1"
  shows "\<exists>s. plotter Model material exp_setup channels offset graph_name fmt savefig
                = Inl (IndexError, s) \<and>
             x_min s = None \<and> length (table s) = length exp_setup \<and>
             length (dydx s) = length exp_setup - 1 \<and>
             events s = events (init_graph channels graph_name) @
               map (\<lambda>i. Plot Fig (display_sweep (length exp_setup) offset channels)
                        (overlay_trace Model material exp_setup channels offset
                           (display_sweep (length exp_setup) offset channels) i))
                   [0..<length exp_setup]"
proof -
  let ?n = "length exp_setup"
  let ?x = "display_sweep ?n offset channels"
  let ?body = "body Model material exp_setup channels offset ?n ?x differential_sweep"
  have len: "length (overlay_trace Model material exp_setup channels offset ?x i) = length ?x"
    and dlen: "length (diff_trace Model material exp_setup channels differential_sweep i) = 320"
    if "i < ?n" for i
    using lp that by (simp_all add: traces_well_shaped)
  from n have last: "?n - 1 < ?n" by simp
  from n have S: "Suc (?n - 1) = ?n" by simp
  have "[0..<Suc (?n - 1)] = [0..<?n - 1] @ [?n - 1]"
    by (rule upt_Suc_append) simp
  then have split: "[0..<?n] = [0..<?n - 1] @ [?n - 1]"
    unfolding S .
  have "\<forall>i \<in> set [0..<?n - 1]. i < ?n \<and> 5 \<le> length (exp_setup ! i) \<and>
             length (overlay_trace Model material exp_setup channels offset ?x i) = length ?x \<and>
             2 \<le> length (diff_trace Model material exp_setup channels differential_sweep i) \<and>
             (int i = int ?n - 1 \<longrightarrow>
                (\<exists>xm. saturation channels ?x
                        (overlay_trace Model material exp_setup channels offset ?x i) = Inr xm))"
  proof
    fix i assume "i \<in> set [0..<?n - 1]"
    then have i: "i < ?n" and ne: "int i \<noteq> int ?n - 1" by auto
    with rows len[OF i] dlen[OF i]
    show "i < ?n \<and> 5 \<le> length (exp_setup ! i) \<and>
             length (overlay_trace Model material exp_setup channels offset ?x i) = length ?x \<and>
             2 \<le> length (diff_trace Model material exp_setup channels differential_sweep i) \<and>
             (int i = int ?n - 1 \<longrightarrow>
                (\<exists>xm. saturation channels ?x
                        (overlay_trace Model material exp_setup channels offset ?x i) = Inr xm))"
      by auto
  qed
  from for_loop_completes[OF this] obtain s1 where
    loop: "for_loop ?body [0..<?n - 1] (init_graph channels graph_name) = Inr s1"
    by blast
  note L = for_loop_Inr[OF loop]
  have "\<not> (\<exists>i \<in> set [0..<?n - 1]. int i = int ?n - 1)" by auto
  with L have x1: "x_min s1 = None" by simp
  from L have t1: "length (table s1) = ?n - 1" by simp
  from L have "map (\<lambda>i. np_gradient (diff_trace Model material exp_setup channels differential_sweep i))
        [0..<?n - 1] = map Inr (dydx s1)" by auto
  from arg_cong[OF this, of length] have d1: "length (dydx s1) = ?n - 1"
    by simp
  from L have e1: "events s1 = events (init_graph channels graph_name) @
      map (\<lambda>i. Plot Fig ?x (overlay_trace Model material exp_setup channels offset ?x i)) [0..<?n - 1]"
    by simp
  have "saturation channels ?x (overlay_trace Model material exp_setup channels offset ?x (?n - 1))
          = Inl IndexError"
    using nosat by (rule saturation_none)
  with n rows last have b: "?body (?n - 1) s1 =
      Inl (IndexError, emit (Plot Fig ?x (overlay_trace Model material exp_setup channels offset ?x (?n - 1)))
             (s1\<lparr>table := table s1 @ [summary_row (model_at Model material exp_setup (?n - 1))]\<rparr>))"
    by (intro body_saturation_fails len) auto
  have "for_loop ?body ([0..<?n - 1] @ [?n - 1]) (init_graph channels graph_name) =
      Inl (IndexError, emit (Plot Fig ?x (overlay_trace Model material exp_setup channels offset ?x (?n - 1)))
             (s1\<lparr>table := table s1 @ [summary_row (model_at Model material exp_setup (?n - 1))]\<rparr>))"
    by (simp only: for_loop_append loop sum.case for_loop.simps b)
  then have "for_loop ?body [0..<?n] (init_graph channels graph_name) =
      Inl (IndexError, emit (Plot Fig ?x (overlay_trace Model material exp_setup channels offset ?x (?n - 1)))
             (s1\<lparr>table := table s1 @ [summary_row (model_at Model material exp_setup (?n - 1))]\<rparr>))"
    by (simp only: split [symmetric])
  then have "plotter Model material exp_setup channels offset graph_name fmt savefig =
      Inl (IndexError, emit (Plot Fig ?x (overlay_trace Model material exp_setup channels offset ?x (?n - 1)))
             (s1\<lparr>table := table s1 @ [summary_row (model_at Model material exp_setup (?n - 1))]\<rparr>))"
    by (simp only: plotter_unfold sum.case)
  moreover have "map (\<lambda>i. Plot Fig ?x (overlay_trace Model material exp_setup channels offset ?x i)) [0..<?n]
      = map (\<lambda>i. Plot Fig ?x (overlay_trace Model material exp_setup channels offset ?x i)) [0..<?n - 1]
        @ [Plot Fig ?x (overlay_trace Model material exp_setup channels offset ?x (?n - 1))]"
    by (subst split) simp
  ultimately show ?thesis
    using x1 t1 d1 e1 n by (simp add: emit_def)
qed

subsection \<open>\<open>read_setup\<close>\<close>

lemma squeeze_single_row: "length r \<noteq> 1 \<Longrightarrow> squeeze [r] = Array1 r"
  by (cases r rule: list.exhaust[case_product list.exhaust]) (auto simp: squeeze_def split: list.splits)

lemma read_setup_single_field:
  "read_setup float_of [header, [field]] = Inr (Array0 (float_of field))"
  by (simp add: read_setup_def genfromtxt_def squeeze_def)

subsection \<open>Selecting recorded calls\<close>

lemma is_savefig_iff: "is_savefig ev \<longleftrightarrow> (\<exists>f p. ev = Savefig f p)"
  by (cases ev) simp_all

lemma is_contourf_iff: "is_contourf ev \<longleftrightarrow> (\<exists>f z. ev = Contourf f z)"
  by (cases ev) simp_all

lemma filter_init_graph [simp]:
  "filter is_savefig (events (init_graph channels graph_name)) = []"
  "filter is_plot (events (init_graph channels graph_name)) = []"
  "filter is_contourf (events (init_graph channels graph_name)) = []"
  "filter (is_xlim f) (events (init_graph channels graph_name)) = []"
  by (simp_all add: init_graph_def)

lemma filter_plots [simp]:
  "filter is_savefig (map (\<lambda>i. Plot f a (F i)) is) = []"
  "filter is_contourf (map (\<lambda>i. Plot f a (F i)) is) = []"
  "filter (is_xlim g) (map (\<lambda>i. Plot f a (F i)) is) = []"
  "filter is_plot (map (\<lambda>i. Plot f a (F i)) is) = map (\<lambda>i. Plot f a (F i)) is"
  by (induction "is") simp_all

lemma filter_contour_events [simp]:
  "filter is_savefig (contour_events offset graph_name plots xm rows) = []"
  "filter is_plot (contour_events offset graph_name plots xm rows) = []"
  "filter (is_xlim Fig) (contour_events offset graph_name plots xm rows) = []"
  "filter is_contourf (contour_events offset graph_name plots xm rows) = [Contourf Fig1 rows]"
  by (simp_all add: contour_events_def)

lemma filter_save_events [simp]:
  "filter is_savefig (save_events f prefix savefig) = save_events f prefix savefig"
  "filter is_plot (save_events f prefix savefig) = []"
  "filter is_contourf (save_events f prefix savefig) = []"
  "filter (is_xlim g) (save_events f prefix savefig) = []"
  by (simp_all add: save_events_def split: option.splits)

lemma failed_run_events:
  assumes "plotter Model material exp_setup channels offset graph_name fmt savefig = Inl (e, s)"
  shows "filter is_savefig (events s) = [] \<and> filter is_contourf (events s) = [] \<and>
         Show \<notin> set (events s)"
  using plotter_Inl[OF assms]
  by (auto simp: filter_empty_conv is_savefig_iff is_contourf_iff)

subsection \<open>Runs on the example inputs\<close>

text \<open>
  With the step model, two configurations, three channels and offset 5 the display sweep
  has 300 samples; the second trace is 0 below energy 5 (sample 70) and 3 from there on,
  so the run completes. With the flat model no trace ever reaches the threshold.
\<close>

lemma two_rows_length: "length two_rows = 2"
  by (simp add: two_rows_def)

lemma two_rows_last: "length two_rows - 1 = 1"
  by (simp add: two_rows_def)

lemma two_rows_indices: "[0..<length two_rows] = [0, 1]"
  by (simp add: two_rows_def upt_rec)

lemma two_rows_well_formed: "1 \<le> length two_rows" "\<forall>e \<in> set two_rows. 5 \<le> length e"
  by (simp_all add: two_rows_def)

lemma one_row_length: "length one_row = 1"
  by (simp add: one_row_def)

lemma one_row_last: "length one_row - 1 = 0"
  by (simp add: one_row_def)

lemma one_row_well_formed: "1 \<le> length one_row" "\<forall>e \<in> set one_row. 5 \<le> length e"
  by (simp_all add: one_row_def)

lemma length_display_sweep_example: "length (display_sweep 2 5 3) = 300"
  by (simp add: display_sweep_samples float64_eval tenth_def)

lemma nth_display_sweep_example:
  assumes "j < 300"
  shows "display_sweep 2 5 3 ! j = float64 (- 2 + float64 (real j * sweep_step))"
proof -
  have "nat \<lceil>float64 (float64 (float64 (float64 (5 * real 2) + real_of_int (3 * 6)) - - 2) / tenth)\<rceil>
          = 300"
    by (simp add: float64_eval tenth_def)
  then have "display_sweep 2 5 3 = map (\<lambda>i. float64 (- 2 + float64 (real i * sweep_step))) [0..<300]"
    by (simp only: display_sweep_samples)
  with assms show ?thesis by simp
qed

lemma display_sweep_example_below:
  assumes "j < 70"
  shows "display_sweep 2 5 3 ! j < 5"
proof -
  from assms have "real j \<le> 69" by simp
  then have "- 2 + real j * sweep_step \<le> - 2 + 69 * sweep_step"
    by (simp add: sweep_step_def)
  moreover from assms sample_error[of j]
  have "float64 (- 2 + float64 (real j * sweep_step)) \<le> - 2 + real j * sweep_step + 1 / 2 ^ 48"
    by (simp add: abs_if split: if_splits)
  ultimately have "float64 (- 2 + float64 (real j * sweep_step)) < 5"
    by (simp add: sweep_step_def)
  with assms show ?thesis by (simp add: nth_display_sweep_example)
qed

lemma display_sweep_example_from:
  assumes "70 \<le> j" and "j < 300"
  shows "5 \<le> display_sweep 2 5 3 ! j"
proof -
  from assms have "70 \<le> real j" by simp
  then have "- 2 + 70 * sweep_step \<le> - 2 + real j * sweep_step"
    by (simp add: sweep_step_def)
  moreover from assms sample_error[of j]
  have "- 2 + real j * sweep_step - 1 / 2 ^ 48 \<le> float64 (- 2 + float64 (real j * sweep_step))"
    by (simp add: abs_if split: if_splits)
  ultimately have "5 \<le> float64 (- 2 + float64 (real j * sweep_step))"
    by (simp add: sweep_step_def)
  with assms show ?thesis by (simp add: nth_display_sweep_example)
qed

lemma display_sweep_example_70:
  "display_sweep 2 5 3 ! 70 = 5629499534213127 / 1125899906842624"
  by (simp add: nth_display_sweep_example float64_eval sweep_step_def)

lemma step_model_preserving: "length_preserving (model_at step_model material exp_setup i)"
  by (simp add: length_preserving_def model_at_def step_model_def Let_def)

lemma flat_model_preserving: "length_preserving (model_at flat_model material exp_setup i)"
  by (simp add: length_preserving_def model_at_def flat_model_def Let_def)

lemma step_trace_example:
  assumes "j < 300"
  shows "overlay_trace step_model GaAs two_rows 3 5 (display_sweep 2 5 3) 1 ! j
           = (if 70 \<le> j then 3 else 0)"
proof -
  have "overlay_trace step_model GaAs two_rows 3 5 (display_sweep 2 5 3) 1 ! j
      = (if display_sweep 2 5 3 ! j - 5 \<ge> 0 then 3 else 0)"
    using assms
    by (simp add: overlay_trace_def model_at_def step_model_def two_rows_def Let_def
        length_display_sweep_example)
  also have "\<dots> = (if 70 \<le> j then 3 else 0)"
  proof (cases "70 \<le> j")
    case True
    with assms display_sweep_example_from[of j] show ?thesis by simp
  next
    case False
    with display_sweep_example_below[of j] show ?thesis by simp
  qed
  finally show ?thesis .
qed

lemma length_step_trace_example:
  "length (overlay_trace step_model GaAs two_rows 3 5 (display_sweep 2 5 3) 1) = 300"
  by (simp add: overlay_trace_def model_at_def step_model_def Let_def length_display_sweep_example)

lemma example_run_completes:
  "\<exists>s. plotter step_model GaAs two_rows 3 5 graph_name fmt savefig = Inr s"
proof (rule plotter_completes)
  show "1 \<le> length two_rows" by (simp add: two_rows_def)
  show "\<forall>e \<in> set two_rows. 5 \<le> length e" by (simp add: two_rows_def)
  show "\<forall>i < length two_rows. length_preserving (model_at step_model GaAs two_rows i)"
    by (simp add: step_model_preserving)
  have "70 < length (overlay_trace step_model GaAs two_rows 3 5 (display_sweep 2 5 3) 1)"
    unfolding length_step_trace_example by simp
  then have "overlay_trace step_model GaAs two_rows 3 5 (display_sweep 2 5 3) 1 ! 70
          \<in> set (overlay_trace step_model GaAs two_rows 3 5 (display_sweep 2 5 3) 1)"
    by (rule nth_mem)
  moreover have "overlay_trace step_model GaAs two_rows 3 5 (display_sweep 2 5 3) 1 ! 70 = 3"
    using step_trace_example[of 70] by simp
  ultimately have "3 \<in> set (overlay_trace step_model GaAs two_rows 3 5 (display_sweep 2 5 3) 1)"
    by (simp only:)
  then have "\<exists>v \<in> set (overlay_trace step_model GaAs two_rows 3 5 (display_sweep 2 5 3) 1).
                v \<ge> real_of_int 3 - 0.1"
    by (intro bexI[of _ 3]) simp_all
  then show "\<exists>v \<in> set (overlay_trace step_model GaAs two_rows 3 5
                 (display_sweep (length two_rows) 5 3) (length two_rows - 1)).
                v \<ge> real_of_int 3 - 0.1"
    unfolding two_rows_last by (simp only: two_rows_length)
qed

lemma single_run_completes:
  "\<exists>s. plotter step_model GaAs one_row 3 5 graph_name fmt savefig = Inr s"
proof (rule plotter_completes)
  show "1 \<le> length one_row" by (simp add: one_row_def)
  show "\<forall>e \<in> set one_row. 5 \<le> length e" by (simp add: one_row_def)
  show "\<forall>i < length one_row. length_preserving (model_at step_model GaAs one_row i)"
    by (simp add: step_model_preserving)
  let ?y = "overlay_trace step_model GaAs one_row 3 5 (display_sweep 1 5 3) 0"
  have "nat \<lceil>float64 (float64 (float64 (float64 (5 * real 1) + real_of_int (3 * 6)) - - 2) / tenth)\<rceil>
          = 250"
    by (simp add: float64_eval tenth_def)
  then have x: "display_sweep 1 5 3
      = map (\<lambda>i. float64 (- 2 + float64 (real i * sweep_step))) [0..<250]"
    by (simp only: display_sweep_samples)
  have lenx: "length (display_sweep 1 5 3) = 250"
    unfolding x by simp
  have len: "length ?y = 250"
    using lenx by (simp add: overlay_trace_def model_at_def step_model_def Let_def del: One_nat_def)
  have "display_sweep 1 5 3 ! 20 = 1 / 562949953421312"
    unfolding x by (simp add: float64_eval sweep_step_def)
  then have "?y ! 20 = 3"
    using lenx by (simp add: overlay_trace_def model_at_def step_model_def Let_def del: One_nat_def)
  moreover have "20 < length ?y"
    unfolding len by simp
  then have "?y ! 20 \<in> set ?y"
    by (rule nth_mem)
  ultimately have "3 \<in> set ?y" by (simp only:)
  then have "\<exists>v \<in> set ?y. v \<ge> real_of_int 3 - 0.1"
    by (intro bexI[of _ 3]) simp_all
  then show "\<exists>v \<in> set (overlay_trace step_model GaAs one_row 3 5
                 (display_sweep (length one_row) 5 3) (length one_row - 1)).
                v \<ge> real_of_int 3 - 0.1"
    unfolding one_row_last by (simp only: one_row_length)
qed

lemma flat_trace_never_saturates:
  "\<forall>v \<in> set (overlay_trace flat_model material exp_setup 3 offset x i).
     \<not> v \<ge> real_of_int 3 - 0.1"
  by (auto simp: overlay_trace_def model_at_def flat_model_def Let_def)

lemma flat_run_fails:
  assumes "1 \<le> length exp_setup" and "\<forall>e \<in> set exp_setup. 5 \<le> length e"
  shows "\<exists>s. plotter flat_model material exp_setup 3 offset graph_name fmt savefig
               = Inl (IndexError, s) \<and> x_min s = None"
proof -
  have "\<forall>i < length exp_setup. length_preserving (model_at flat_model material exp_setup i)"
    by (simp add: flat_model_preserving)
  from plotter_saturation_fails[OF assms this flat_trace_never_saturates,
      of offset graph_name fmt savefig]
  show ?thesis by blast
qed

section \<open>The claims\<close>

subsection \<open>Saturation lookup without a match\<close>

text \<open>
  Claim C1, as the code has it. For every batch of at least one configuration, with rows
  of at least five columns and models whose transmission returns one conductance per
  energy, in which the overlay trace of the last configuration has no sample with
  conductance \<open>\<ge> channels - 0.1\<close>: the match result of \<open>np.where\<close> is empty, \<open>plotter\<close>
  indexes into it all the same, and the run ends with the \<open>IndexError\<close> of that access,
  right after the last trace was plotted and with \<open>x_min\<close> unassigned. There is no
  error of the routine's own for this case.
\<close>

theorem saturation_failure_is_index_error:
  assumes "1 \<le> length exp_setup"
    and "\<forall>e \<in> set exp_setup. 5 \<le> length e"
    and "\<forall>i < length exp_setup. length_preserving (model_at Model material exp_setup i)"
    and "\<forall>v \<in> set (overlay_trace Model material exp_setup channels offset
                 (display_sweep (length exp_setup) offset channels) (length exp_setup - 1)).
                \<not> v \<ge> real_of_int channels - 0.1"
  shows "\<exists>s. plotter Model material exp_setup channels offset graph_name fmt savefig
                = Inl (IndexError, s) \<and>
             x_min s = None \<and>
             np_where (map (\<lambda>v. v \<ge> real_of_int channels - 0.1)
                (overlay_trace Model material exp_setup channels offset
                   (display_sweep (length exp_setup) offset channels) (length exp_setup - 1))) = [] \<and>
             last (events s) =
               Plot Fig (display_sweep (length exp_setup) offset channels)
                 (overlay_trace Model material exp_setup channels offset
                   (display_sweep (length exp_setup) offset channels) (length exp_setup - 1))"
proof -
  let ?n = "length exp_setup"
  let ?x = "display_sweep ?n offset channels"
  from plotter_saturation_fails[OF assms, of graph_name fmt savefig] obtain s where
    run: "plotter Model material exp_setup channels offset graph_name fmt savefig = Inl (IndexError, s)"
    and x: "x_min s = None"
    and ev: "events s = events (init_graph channels graph_name) @
               map (\<lambda>i. Plot Fig ?x (overlay_trace Model material exp_setup channels offset ?x i))
                   [0..<?n]"
    by blast
  from assms(1) have S: "Suc (?n - 1) = ?n" by simp
  have "[0..<Suc (?n - 1)] = [0..<?n - 1] @ [?n - 1]"
    by (rule upt_Suc_append) simp
  then have split: "[0..<?n] = [0..<?n - 1] @ [?n - 1]"
    unfolding S .
  have "last (events s) = Plot Fig ?x (overlay_trace Model material exp_setup channels offset ?x (?n - 1))"
    unfolding ev by (subst split) simp
  moreover have "np_where (map (\<lambda>v. v \<ge> real_of_int channels - 0.1)
                (overlay_trace Model material exp_setup channels offset ?x (?n - 1))) = []"
    using assms(4) by (intro np_where_empty) auto
  ultimately show ?thesis using run x by blast
qed

theorem saturation_failure_is_index_error_witness:
  "raised (plotter flat_model GaAs two_rows 3 5 ''conductance'' ''pdf'' (Some ''out.pdf''))
     = Some IndexError \<and>
   x_min (final_state
       (plotter flat_model GaAs two_rows 3 5 ''conductance'' ''pdf'' (Some ''out.pdf''))) = None"
proof -
  have "\<forall>i < length two_rows. length_preserving (model_at flat_model GaAs two_rows i)"
    by (simp add: flat_model_preserving)
  from saturation_failure_is_index_error[OF two_rows_well_formed this flat_trace_never_saturates,
      of 5 "''conductance''" "''pdf''" "Some ''out.pdf''"]
  obtain s where
    "plotter flat_model GaAs two_rows 3 5 ''conductance'' ''pdf'' (Some ''out.pdf'')
       = Inl (IndexError, s)" and "x_min s = None"
    by blast
  then show ?thesis by simp
qed

text \<open>
  One configuration, the flat model: the match result is empty, indexing it raises
  \<open>IndexError\<close>, and that is the error of the run.
\<close>

theorem saturation_failure_counterexample:
  "raised (plotter flat_model GaAs one_row 3 5 ''conductance'' ''pdf'' None) = Some IndexError \<and>
   np_where (map (\<lambda>v. v \<ge> real_of_int 3 - 0.1)
      (overlay_trace flat_model GaAs one_row 3 5 (display_sweep 1 5 3) 0)) = [] \<and>
   getitem (np_where (map (\<lambda>v. v \<ge> real_of_int 3 - 0.1)
      (overlay_trace flat_model GaAs one_row 3 5 (display_sweep 1 5 3) 0))) 0 = Inl IndexError"
proof -
  from flat_run_fails[OF one_row_well_formed]
  obtain s where
    "plotter flat_model GaAs one_row 3 5 ''conductance'' ''pdf'' None = Inl (IndexError, s)"
    by blast
  then have r: "raised (plotter flat_model GaAs one_row 3 5 ''conductance'' ''pdf'' None)
      = Some IndexError" by simp
  have w: "np_where (map (\<lambda>v. v \<ge> real_of_int 3 - 0.1)
      (overlay_trace flat_model GaAs one_row 3 5 (display_sweep 1 5 3) 0)) = []"
    using flat_trace_never_saturates[of GaAs one_row 5 "display_sweep 1 5 3" 0]
    by (intro np_where_empty) auto
  from r w show ?thesis by (simp add: getitem_def)
qed

subsection \<open>Sweep construction\<close>

text \<open>
  Claim C2, as the code has it. For every batch size \<open>plots\<close>, offset and channel count
  the display sweep is the \<open>float64\<close> sequence of \<open>np.arange\<close>: it starts at -2; its
  step is the rounded difference of its first two samples, 0.10000000000000009 and not
  0.1; sample \<open>i\<close> is \<open>-2 + i * step\<close> with product and sum rounded; and it has
  \<open>ceil((stop + 2) / 0.1)\<close> samples, where \<open>stop = offset * plots + channels * 6\<close> and
  every operation is rounded. The bound is exclusive only up to that rounding: the last
  sample can reach or pass it. The differential sweep is the same sequence with the
  bound 30: 320 samples, all from -2 up to but below 30, whatever \<open>plots\<close> and \<open>offset\<close>
  are.
\<close>

theorem sweeps_float_arange:
  "display_sweep plots offset channels =
     map (\<lambda>i. float64 (- 2 + float64 (real i * sweep_step)))
       [0..<nat \<lceil>float64 (float64 (float64 (float64 (offset * real plots)
                         + real_of_int (channels * 6)) - - 2) / float64 0.1)\<rceil>] \<and>
   sweep_step = float64 (float64 (- 2 + float64 0.1) - - 2) \<and>
   differential_sweep =
     map (\<lambda>i. float64 (- 2 + float64 (real i * sweep_step))) [0..<320] \<and>
   (\<forall>v \<in> set differential_sweep. - 2 \<le> v \<and> v < 30)"
proof (intro conjI ballI)
  show "display_sweep plots offset channels =
     map (\<lambda>i. float64 (- 2 + float64 (real i * sweep_step)))
       [0..<nat \<lceil>float64 (float64 (float64 (float64 (offset * real plots)
                         + real_of_int (channels * 6)) - - 2) / float64 0.1)\<rceil>]"
    by (simp only: display_sweep_samples float64_tenth)
  show "sweep_step = float64 (float64 (- 2 + float64 0.1) - - 2)"
    by (simp only: float64_tenth float64_next float64_delta)
  show d: "differential_sweep =
     map (\<lambda>i. float64 (- 2 + float64 (real i * sweep_step))) [0..<320]"
    by (rule differential_sweep_samples)
  fix v assume "v \<in> set differential_sweep"
  then have "v \<in> set (map (\<lambda>i. float64 (- 2 + float64 (real i * sweep_step))) [0..<320])"
    unfolding differential_sweep_samples .
  then obtain i where i: "i < 320"
    and v: "v = float64 (- 2 + float64 (real i * sweep_step))"
    by auto
  from i have "i \<le> 319" by simp
  from sample_error[OF this] v
  have lo: "- 2 + real i * sweep_step - 1 / 2 ^ 48 \<le> v"
    and hi: "v \<le> - 2 + real i * sweep_step + 1 / 2 ^ 48"
    by (simp_all add: abs_if split: if_splits)
  from i have "real i \<le> 319" by simp
  with hi show "v < 30" by (simp add: sweep_step_def)
  show "- 2 \<le> v"
  proof (cases "i = 0")
    case True
    with v float64_first show ?thesis by simp
  next
    case False
    then have "1 \<le> real i" by simp
    with lo show ?thesis by (simp add: sweep_step_def)
  qed
qed

theorem sweeps_float_arange_witness:
  "length (display_sweep 2 5 3) = 300 \<and>
   display_sweep 2 5 3 ! 70 = 5629499534213127 / 1125899906842624 \<and>
   length differential_sweep = 320 \<and>
   differential_sweep ! 319 = 4208050901824311 / 140737488355328"
proof -
  from sweeps_float_arange[of 2 5 3] have
    d: "display_sweep 2 5 3 =
     map (\<lambda>i. float64 (- 2 + float64 (real i * sweep_step)))
       [0..<nat \<lceil>float64 (float64 (float64 (float64 (5 * real 2)
                         + real_of_int (3 * 6)) - - 2) / float64 0.1)\<rceil>]"
    and e: "differential_sweep =
     map (\<lambda>i. float64 (- 2 + float64 (real i * sweep_step))) [0..<320]"
    by blast+
  have "nat \<lceil>float64 (float64 (float64 (float64 (5 * real 2)
                         + real_of_int (3 * 6)) - - 2) / float64 0.1)\<rceil> = 300"
    by (simp add: float64_eval)
  with d have d': "display_sweep 2 5 3 =
     map (\<lambda>i. float64 (- 2 + float64 (real i * sweep_step))) [0..<300]"
    by (simp only:)
  have "length (display_sweep 2 5 3) = 300"
    by (simp add: d')
  moreover have "display_sweep 2 5 3 ! 70 = 5629499534213127 / 1125899906842624"
    by (simp add: d' float64_eval sweep_step_def)
  moreover have "length differential_sweep = 320"
    by (simp add: e)
  moreover have "differential_sweep ! 319 = 4208050901824311 / 140737488355328"
    by (simp add: e float64_eval sweep_step_def)
  ultimately show ?thesis by blast
qed

text \<open>
  Offset 4.4 (the double nearest to it), three configurations, one channel: the bound
  is 19.200000000000003, the sweep has 213 samples, and the last one,
  19.200000000000017, is not below the bound; the second sample is not -2 + 0.1
  either.
\<close>

theorem sweeps_float_arange_counterexample:
  "float64 4.4 = 2476979795053773 / 562949953421312 \<and>
   float64 (float64 (2476979795053773 / 562949953421312 * real 3) + real_of_int (1 * 6))
     = 1351079888211149 / 70368744177664 \<and>
   length (display_sweep 3 (2476979795053773 / 562949953421312) 1) = 213 \<and>
   display_sweep 3 (2476979795053773 / 562949953421312) 1 ! 212
     = 675539944105575 / 35184372088832 \<and>
   1351079888211149 / 70368744177664
     \<le> display_sweep 3 (2476979795053773 / 562949953421312) 1 ! 212 \<and>
   display_sweep 3 (2476979795053773 / 562949953421312) 1 ! 1 \<noteq> - 2 + 0.1"
proof -
  have "nat \<lceil>float64 (float64 (float64 (float64 (2476979795053773 / 562949953421312 * real 3)
                         + real_of_int (1 * 6)) - - 2) / tenth)\<rceil> = 213"
    by (simp add: float64_eval tenth_def)
  then have x: "display_sweep 3 (2476979795053773 / 562949953421312) 1 =
     map (\<lambda>i. float64 (- 2 + float64 (real i * sweep_step))) [0..<213]"
    by (simp only: display_sweep_samples)
  have a: "float64 4.4 = 2476979795053773 / 562949953421312"
    by (simp add: float64_eval)
  have b: "float64 (float64 (2476979795053773 / 562949953421312 * real 3) + real_of_int (1 * 6))
     = 1351079888211149 / 70368744177664"
    by (simp add: float64_eval)
  have c: "length (display_sweep 3 (2476979795053773 / 562949953421312) 1) = 213"
    by (simp add: x)
  have d: "display_sweep 3 (2476979795053773 / 562949953421312) 1 ! 212
     = 675539944105575 / 35184372088832"
    by (simp add: x float64_eval sweep_step_def)
  have e: "display_sweep 3 (2476979795053773 / 562949953421312) 1 ! 1 = - 2 + sweep_step"
    by (simp add: x float64_eval sweep_step_def)
  from a b c d e show ?thesis
    by (simp add: sweep_step_def)
qed

subsection \<open>The visible x-axis\<close>

text \<open>
  Claim C3. In a completed run, if \<open>k\<close> is the first position at which the overlay trace
  of the last configuration has conductance \<open>\<ge> channels - 0.1\<close>, then \<open>x_min\<close> is the
  display-sweep value at \<open>k\<close> plus 1, and the only x-axis limits set on the overlay figure
  are \<open>[-1, x_min]\<close>.
\<close>

theorem x_min_at_first_saturated_sample:
  assumes "plotter Model material exp_setup channels offset graph_name fmt savefig = Inr s"
    and "k < length (overlay_trace Model material exp_setup channels offset
                       (display_sweep (length exp_setup) offset channels) (length exp_setup - 1))"
    and "overlay_trace Model material exp_setup channels offset
           (display_sweep (length exp_setup) offset channels) (length exp_setup - 1) ! k
         \<ge> real_of_int channels - 0.1"
    and "\<forall>j<k. \<not> overlay_trace Model material exp_setup channels offset
                   (display_sweep (length exp_setup) offset channels) (length exp_setup - 1) ! j
                 \<ge> real_of_int channels - 0.1"
  shows "x_min s = Some (display_sweep (length exp_setup) offset channels ! k + 1) \<and>
         filter (is_xlim Fig) (events s) =
           [Set_xlim Fig (- 1) (display_sweep (length exp_setup) offset channels ! k + 1)]"
proof -
  let ?n = "length exp_setup"
  let ?x = "display_sweep ?n offset channels"
  let ?y = "overlay_trace Model material exp_setup channels offset ?x (?n - 1)"
  note P = plotter_Inr[OF assms(1)]
  from P have "1 \<le> ?n" by blast
  then have "?n - 1 < ?n" by simp
  moreover from P have "\<forall>i < ?n. length (overlay_trace Model material exp_setup channels offset ?x i)
      = length ?x" by blast
  ultimately have len: "length ?y = length ?x" by blast
  from P obtain xm where sat: "saturation channels ?x ?y = Inr xm"
    and xm: "x_min s = Some xm"
    and ev: "events s = events (init_graph channels graph_name) @
             map (\<lambda>i. Plot Fig ?x (overlay_trace Model material exp_setup channels offset ?x i))
                 [0..<?n] @
             [Print_table field_names (table s), Print_line note_text, Set_xlim Fig (- 1) xm] @
             (if ?n > 1
              then contour_events offset graph_name ?n xm (dydx s) @
                   save_events Fig1 ''diff_'' savefig
              else []) @
             save_events Fig [] savefig @ [Show]"
    by blast
  from saturation_first[OF len assms(2,3,4)] sat have "xm = ?x ! k + 1" by simp
  with xm ev show ?thesis by simp
qed

theorem x_min_at_first_saturated_sample_witness:
  "x_min (final_state (plotter step_model GaAs two_rows 3 5 ''conductance'' ''pdf'' (Some ''out.pdf'')))
     = Some (6755399441055751 / 1125899906842624) \<and>
   filter (is_xlim Fig) (events (final_state
       (plotter step_model GaAs two_rows 3 5 ''conductance'' ''pdf'' (Some ''out.pdf''))))
     = [Set_xlim Fig (- 1) (6755399441055751 / 1125899906842624)]"
proof -
  from example_run_completes obtain s where
    s: "plotter step_model GaAs two_rows 3 5 ''conductance'' ''pdf'' (Some ''out.pdf'') = Inr s"
    by blast
  let ?y = "overlay_trace step_model GaAs two_rows 3 5 (display_sweep 2 5 3) 1"
  have k: "70 < length ?y"
    unfolding length_step_trace_example by simp
  have at: "?y ! 70 \<ge> real_of_int 3 - 0.1"
    using step_trace_example[of 70] by simp
  have before: "\<forall>j<70. \<not> ?y ! j \<ge> real_of_int 3 - 0.1"
    using step_trace_example by simp
  have x: "display_sweep 2 5 3 ! 70 + 1 = 6755399441055751 / 1125899906842624"
    by (simp add: display_sweep_example_70)
  note T = x_min_at_first_saturated_sample[OF s, unfolded two_rows_last, unfolded two_rows_length,
      OF k at before]
  from T s show ?thesis
    by (simp only: x final_state.simps)
qed

subsection \<open>Overlay traces\<close>

text \<open>
  Claim C4. In a completed run the traces plotted on the overlay figure are, in batch
  order, one per configuration \<open>i\<close> (0-based): the transmission of the model of
  configuration \<open>i\<close> on the display sweep with \<open>i * offset\<close> subtracted from every sample,
  plotted against the unshifted display sweep.
\<close>

theorem overlay_traces_shifted:
  assumes "plotter Model material exp_setup channels offset graph_name fmt savefig = Inr s"
  shows "filter is_plot (events s) =
           map (\<lambda>i. Plot Fig (display_sweep (length exp_setup) offset channels)
                  (total_transmission (model_at Model material exp_setup i) channels
                     (map (\<lambda>v. v - real i * offset)
                        (display_sweep (length exp_setup) offset channels))))
               [0..<length exp_setup]"
proof -
  from plotter_Inr[OF assms] obtain xm where
    "events s = events (init_graph channels graph_name) @
             map (\<lambda>i. Plot Fig (display_sweep (length exp_setup) offset channels)
                        (overlay_trace Model material exp_setup channels offset
                           (display_sweep (length exp_setup) offset channels) i))
                 [0..<length exp_setup] @
             [Print_table field_names (table s), Print_line note_text, Set_xlim Fig (- 1) xm] @
             (if length exp_setup > 1
              then contour_events offset graph_name (length exp_setup) xm (dydx s) @
                   save_events Fig1 ''diff_'' savefig
              else []) @
             save_events Fig [] savefig @ [Show]"
    by blast
  then show ?thesis
    by (simp add: overlay_trace_def)
qed

theorem overlay_traces_shifted_witness:
  "raised (plotter step_model GaAs two_rows 3 5 ''conductance'' ''pdf'' (Some ''out.pdf'')) = None \<and>
   filter is_plot (events (final_state
       (plotter step_model GaAs two_rows 3 5 ''conductance'' ''pdf'' (Some ''out.pdf'')))) =
     [Plot Fig (display_sweep 2 5 3)
        (total_transmission (model_at step_model GaAs two_rows 0) 3
           (map (\<lambda>v. v - real 0 * 5) (display_sweep 2 5 3))),
      Plot Fig (display_sweep 2 5 3)
        (total_transmission (model_at step_model GaAs two_rows 1) 3
           (map (\<lambda>v. v - real 1 * 5) (display_sweep 2 5 3)))]"
proof -
  from example_run_completes obtain s where
    s: "plotter step_model GaAs two_rows 3 5 ''conductance'' ''pdf'' (Some ''out.pdf'') = Inr s"
    by blast
  from overlay_traces_shifted[OF s] have "filter is_plot (events s) =
     [Plot Fig (display_sweep 2 5 3)
        (total_transmission (model_at step_model GaAs two_rows 0) 3
           (map (\<lambda>v. v - real 0 * 5) (display_sweep 2 5 3))),
      Plot Fig (display_sweep 2 5 3)
        (total_transmission (model_at step_model GaAs two_rows 1) 3
           (map (\<lambda>v. v - real 1 * 5) (display_sweep 2 5 3)))]"
    unfolding two_rows_indices by (simp only: two_rows_length list.map)
  with s show ?thesis by (simp only: final_state.simps raised.simps simp_thms)
qed

subsection \<open>The derivative matrix\<close>

text \<open>
  Claim C5. In a completed run on a batch of \<open>n\<close> configurations whose models return one
  conductance per energy, \<open>dydx\<close> has exactly \<open>n\<close> rows, in batch order. Row \<open>i\<close> is the
  numerical gradient of the transmission \<open>f\<close> of configuration \<open>i\<close> on the unshifted
  differential sweep: it has the 320 entries of the sweep, the first is \<open>f[1] - f[0]\<close>,
  the last is \<open>f[319] - f[318]\<close>, and entry \<open>k\<close> in between is the central difference
  \<open>(f[k+1] - f[k-1]) / 2\<close>.
\<close>

theorem derivative_matrix_rows:
  assumes "plotter Model material exp_setup channels offset graph_name fmt savefig = Inr s"
    and "\<forall>i < length exp_setup. length_preserving (model_at Model material exp_setup i)"
  shows "length (dydx s) = length exp_setup \<and>
         (\<forall>i < length exp_setup.
            np_gradient (total_transmission (model_at Model material exp_setup i) channels
                           differential_sweep) = Inr (dydx s ! i) \<and>
            length (dydx s ! i) = length differential_sweep \<and>
            (\<forall>k < 320.
               dydx s ! i ! k =
                 (let f = total_transmission (model_at Model material exp_setup i) channels
                            differential_sweep
                  in if k = 0 then f ! 1 - f ! 0
                     else if k = 319 then f ! 319 - f ! 318
                     else (f ! (k + 1) - f ! (k - 1)) / 2)))"
proof -
  from plotter_Inr[OF assms(1)] have
    d: "map (\<lambda>i. np_gradient (diff_trace Model material exp_setup channels differential_sweep i))
        [0..<length exp_setup] = map Inr (dydx s)"
    by blast
  from arg_cong[OF d, of length] have len: "length (dydx s) = length exp_setup" by simp
  have "np_gradient (total_transmission (model_at Model material exp_setup i) channels
                           differential_sweep) = Inr (dydx s ! i) \<and>
            length (dydx s ! i) = length differential_sweep \<and>
            (\<forall>k < 320.
               dydx s ! i ! k =
                 (let f = total_transmission (model_at Model material exp_setup i) channels
                            differential_sweep
                  in if k = 0 then f ! 1 - f ! 0
                     else if k = 319 then f ! 319 - f ! 318
                     else (f ! (k + 1) - f ! (k - 1)) / 2))"
    if i: "i < length exp_setup" for i
  proof -
    let ?f = "diff_trace Model material exp_setup channels differential_sweep i"
    from d have "map (\<lambda>i. np_gradient (diff_trace Model material exp_setup channels differential_sweep i))
        [0..<length exp_setup] ! i = map Inr (dydx s) ! i" by simp
    with i len have g: "np_gradient ?f = Inr (dydx s ! i)" by simp
    from traces_well_shaped(2)[OF i, of Model material channels] assms(2) i
    have lf: "length ?f = 320" by simp
    from np_gradient_length[OF g] lf
    have l: "length (dydx s ! i) = length differential_sweep"
      by (simp add: length_differential_sweep)
    have v: "dydx s ! i ! k =
        (if k = 0 then ?f ! 1 - ?f ! 0
         else if k = 319 then ?f ! 319 - ?f ! 318
         else (?f ! (k + 1) - ?f ! (k - 1)) / 2)" if "k < 320" for k
      using np_gradient_values[OF g, of k] that lf by simp
    from g l v show ?thesis by (simp add: diff_trace_def Let_def)
  qed
  with len show ?thesis by blast
qed

theorem derivative_matrix_rows_witness:
  "raised (plotter step_model GaAs two_rows 3 5 ''conductance'' ''pdf'' (Some ''out.pdf'')) = None \<and>
   length (dydx (final_state
       (plotter step_model GaAs two_rows 3 5 ''conductance'' ''pdf'' (Some ''out.pdf'')))) = 2 \<and>
   length (dydx (final_state
       (plotter step_model GaAs two_rows 3 5 ''conductance'' ''pdf'' (Some ''out.pdf''))) ! 0) = 320 \<and>
   length (dydx (final_state
       (plotter step_model GaAs two_rows 3 5 ''conductance'' ''pdf'' (Some ''out.pdf''))) ! 1) = 320 \<and>
   dydx (final_state
       (plotter step_model GaAs two_rows 3 5 ''conductance'' ''pdf'' (Some ''out.pdf''))) ! 0 ! 0 = 0 \<and>
   dydx (final_state
       (plotter step_model GaAs two_rows 3 5 ''conductance'' ''pdf'' (Some ''out.pdf''))) ! 0 ! 19 = 3 / 2 \<and>
   dydx (final_state
       (plotter step_model GaAs two_rows 3 5 ''conductance'' ''pdf'' (Some ''out.pdf''))) ! 0 ! 20 = 3 / 2 \<and>
   dydx (final_state
       (plotter step_model GaAs two_rows 3 5 ''conductance'' ''pdf'' (Some ''out.pdf''))) ! 0 ! 21 = 0"
proof -
  from example_run_completes obtain s where
    s: "plotter step_model GaAs two_rows 3 5 ''conductance'' ''pdf'' (Some ''out.pdf'') = Inr s"
    by blast
  have lp: "\<forall>i < length two_rows. length_preserving (model_at step_model GaAs two_rows i)"
    by (simp add: step_model_preserving)
  note T = derivative_matrix_rows[OF s lp]
  from T have lens: "length (dydx s) = 2" "length (dydx s ! 0) = 320" "length (dydx s ! 1) = 320"
    by (simp_all add: two_rows_def length_differential_sweep)
  let ?f = "total_transmission (model_at step_model GaAs two_rows 0) 3 differential_sweep"
  from T have vals: "\<And>k. k < 320 \<Longrightarrow> dydx s ! 0 ! k =
        (if k = 0 then ?f ! 1 - ?f ! 0
         else if k = 319 then ?f ! 319 - ?f ! 318
         else (?f ! (k + 1) - ?f ! (k - 1)) / 2)"
    by (simp add: two_rows_def Let_def)
  have f: "?f ! j = (if 0 \<le> differential_sweep ! j then 3 else 0)" if "j < 320" for j
    using that by (simp add: model_at_def step_model_def Let_def length_differential_sweep)
  have x: "differential_sweep ! 0 = - 2" "differential_sweep ! 1 < 0" "differential_sweep ! 18 < 0"
    "differential_sweep ! 19 < 0" "0 \<le> differential_sweep ! 20" "0 \<le> differential_sweep ! 21"
    "0 \<le> differential_sweep ! 22"
    by (simp_all add: differential_sweep_samples float64_eval sweep_step_def)
  from vals[of 0] f[of 0] f[of 1] x have v0: "dydx s ! 0 ! 0 = 0" by simp
  from vals[of 19] f[of 18] f[of 20] x have v19: "dydx s ! 0 ! 19 = 3 / 2" by simp
  from vals[of 20] f[of 19] f[of 21] x have v20: "dydx s ! 0 ! 20 = 3 / 2" by simp
  from vals[of 21] f[of 20] f[of 22] x have v21: "dydx s ! 0 ! 21 = 0" by simp
  from lens v0 v19 v20 v21 s show ?thesis by simp
qed

subsection \<open>Contour figure and saved files\<close>

text \<open>
  Claim C6. In a completed run the contour figure is drawn exactly when the batch has
  more than one configuration. With a save name, the files written are, in this order,
  the contour figure under \<open>./Results/diff_<name>\<close> (only when it was drawn) and the overlay
  figure under \<open>./Results/<name>\<close>; without a save name nothing is saved. For a batch of
  size 1 the only file is the overlay figure's. A run that raises draws no contour and
  saves nothing.
\<close>

theorem contour_and_saves:
  "(\<forall>s. plotter Model material exp_setup channels offset graph_name fmt savefig = Inr s \<longrightarrow>
      filter is_contourf (events s) =
        (if 1 < length exp_setup then [Contourf Fig1 (dydx s)] else []) \<and>
      filter is_savefig (events s) =
        (case savefig of
           None \<Rightarrow> []
         | Some file_name \<Rightarrow>
             (if 1 < length exp_setup
              then [Savefig Fig1 (''./Results/'' @ ''diff_'' @ file_name)] else []) @
             [Savefig Fig (''./Results/'' @ file_name)])) \<and>
   (\<forall>e s. plotter Model material exp_setup channels offset graph_name fmt savefig = Inl (e, s) \<longrightarrow>
      filter is_contourf (events s) = [] \<and> filter is_savefig (events s) = [])"
proof (intro conjI allI impI)
  fix s
  assume run: "plotter Model material exp_setup channels offset graph_name fmt savefig = Inr s"
  from plotter_Inr[OF run] obtain xm where
    ev: "events s = events (init_graph channels graph_name) @
             map (\<lambda>i. Plot Fig (display_sweep (length exp_setup) offset channels)
                        (overlay_trace Model material exp_setup channels offset
                           (display_sweep (length exp_setup) offset channels) i))
                 [0..<length exp_setup] @
             [Print_table field_names (table s), Print_line note_text, Set_xlim Fig (- 1) xm] @
             (if length exp_setup > 1
              then contour_events offset graph_name (length exp_setup) xm (dydx s) @
                   save_events Fig1 ''diff_'' savefig
              else []) @
             save_events Fig [] savefig @ [Show]"
    by blast
  from ev show "filter is_contourf (events s) =
        (if 1 < length exp_setup then [Contourf Fig1 (dydx s)] else [])"
    by simp
  from ev show "filter is_savefig (events s) =
        (case savefig of
           None \<Rightarrow> []
         | Some file_name \<Rightarrow>
             (if 1 < length exp_setup
              then [Savefig Fig1 (''./Results/'' @ ''diff_'' @ file_name)] else []) @
             [Savefig Fig (''./Results/'' @ file_name)])"
    by (simp add: save_events_def split: option.splits)
next
  fix e s
  assume "plotter Model material exp_setup channels offset graph_name fmt savefig = Inl (e, s)"
  from failed_run_events[OF this]
  show "filter is_contourf (events s) = []" and "filter is_savefig (events s) = []"
    by simp_all
qed

theorem contour_and_saves_witness:
  "filter is_savefig (events (final_state
       (plotter step_model GaAs two_rows 3 5 ''conductance'' ''pdf'' (Some ''out.pdf''))))
     = [Savefig Fig1 ''./Results/diff_out.pdf'', Savefig Fig ''./Results/out.pdf''] \<and>
   filter is_savefig (events (final_state
       (plotter step_model GaAs one_row 3 5 ''conductance'' ''pdf'' (Some ''out.pdf''))))
     = [Savefig Fig ''./Results/out.pdf''] \<and>
   filter is_contourf (events (final_state
       (plotter step_model GaAs one_row 3 5 ''conductance'' ''pdf'' (Some ''out.pdf'')))) = [] \<and>
   filter is_savefig (events (final_state
       (plotter step_model GaAs two_rows 3 5 ''conductance'' ''pdf'' None))) = [] \<and>
   filter is_savefig (events (final_state
       (plotter flat_model GaAs two_rows 3 5 ''conductance'' ''pdf'' (Some ''out.pdf'')))) = []"
proof -
  from example_run_completes obtain s2 where
    s2: "plotter step_model GaAs two_rows 3 5 ''conductance'' ''pdf'' (Some ''out.pdf'') = Inr s2"
    by blast
  from single_run_completes obtain s1 where
    s1: "plotter step_model GaAs one_row 3 5 ''conductance'' ''pdf'' (Some ''out.pdf'') = Inr s1"
    by blast
  from example_run_completes obtain s0 where
    s0: "plotter step_model GaAs two_rows 3 5 ''conductance'' ''pdf'' None = Inr s0"
    by blast
  from flat_run_fails[OF two_rows_well_formed] obtain sf where
    sf: "plotter flat_model GaAs two_rows 3 5 ''conductance'' ''pdf'' (Some ''out.pdf'')
           = Inl (IndexError, sf)"
    by blast
  from contour_and_saves[of step_model GaAs two_rows 3 5 "''conductance''" "''pdf''" "Some ''out.pdf''"] s2
  have a: "filter is_savefig (events s2)
      = [Savefig Fig1 ''./Results/diff_out.pdf'', Savefig Fig ''./Results/out.pdf'']"
    by (simp add: two_rows_length)
  from contour_and_saves[of step_model GaAs one_row 3 5 "''conductance''" "''pdf''" "Some ''out.pdf''"] s1
  have b: "filter is_savefig (events s1) = [Savefig Fig ''./Results/out.pdf'']"
    and c: "filter is_contourf (events s1) = []"
    by (simp_all add: one_row_length)
  from contour_and_saves[of step_model GaAs two_rows 3 5 "''conductance''" "''pdf''" None] s0
  have d: "filter is_savefig (events s0) = []"
    by simp
  from contour_and_saves[of flat_model GaAs two_rows 3 5 "''conductance''" "''pdf''" "Some ''out.pdf''"] sf
  have e: "filter is_savefig (events sf) = []"
    by simp
  from a b c d e s2 s1 s0 sf show ?thesis
    by (simp only: final_state.simps simp_thms)
qed

subsection \<open>The empty batch\<close>

text \<open>
  Claim C7, as the code has it. For a batch of size 0, \<open>plotter\<close> makes no check of the
  batch size: it sets up the overlay figure, runs no iteration, prints the empty table
  and the note, and then raises \<open>UnboundLocalError\<close> when it reads \<open>x_min\<close>, which was
  never assigned, for \<open>set_xlim\<close>. Nothing is shown and nothing is saved.
\<close>

theorem plotter_empty_batch:
  "plotter Model material [] channels offset graph_name fmt savefig =
     Inl (UnboundLocalError,
          \<lparr>events = events (init_graph channels graph_name) @
                      [Print_table field_names [], Print_line note_text],
           table = [], dydx = [], x_min = None\<rparr>)"
  by (simp add: plotter_empty emit_def init_graph_def)

theorem plotter_empty_batch_witness:
  "raised (plotter step_model GaAs [] 3 5 ''conductance'' ''pdf'' (Some ''out.pdf''))
     = Some UnboundLocalError"
  using plotter_empty_batch [of step_model GaAs 3 5 "''conductance''" "''pdf''" "Some ''out.pdf''"]
  by simp

text \<open>
  On the empty batch the error is the interpreter's \<open>UnboundLocalError\<close>, raised after
  the table has been printed: the input is not rejected by a check of its own.
\<close>

theorem plotter_empty_batch_counterexample:
  "raised (plotter flat_model GaAs [] 1 1 ''conductance'' ''pdf'' None) = Some UnboundLocalError \<and>
   last (events (final_state (plotter flat_model GaAs [] 1 1 ''conductance'' ''pdf'' None)))
     = Print_line note_text \<and>
   Print_table field_names [] \<in>
     set (events (final_state (plotter flat_model GaAs [] 1 1 ''conductance'' ''pdf'' None)))"
  by (simp add: plotter_empty)

subsection \<open>Reading the setup\<close>

text \<open>
  Claim C8. For a setup file with a header line and exactly one data row, \<open>read_setup\<close>
  returns a two-dimensional array with that one row, a batch of size 1, and not the bare
  row. The row may have any number of fields but one (a setup row has five); a row of a
  single field is squeezed to a zero-dimensional array, see \<open>read_setup_single_field\<close>.
\<close>

theorem read_setup_single_row:
  assumes "length row \<noteq> 1"
  shows "read_setup float_of [header, row] = Inr (Array2 [map float_of row]) \<and>
         len (Array2 [map float_of row]) = Some 1"
proof -
  from assms have "squeeze [map float_of row] = Array1 (map float_of row)"
    by (intro squeeze_single_row) simp
  then show ?thesis
    by (simp add: read_setup_def genfromtxt_def)
qed

theorem read_setup_single_row_witness:
  "read_setup (\<lambda>field. if field = ''2.0'' then 2 else if field = ''1.0'' then 1 else 0)
     [[''hw_x'', ''ratio'', ''V_sd'', ''B'', ''angle''], [''2.0'', ''1.0'', ''0.0'', ''0.0'', ''0.0'']]
   = Inr (Array2 [[2, 1, 0, 0, 0]])"
  using read_setup_single_row
    [of "[''2.0'', ''1.0'', ''0.0'', ''0.0'', ''0.0'']"
        "\<lambda>field. if field = ''2.0'' then 2 else if field = ''1.0'' then 1 else 0"
        "[''hw_x'', ''ratio'', ''V_sd'', ''B'', ''angle'']"]
  by simp

subsection \<open>Summary rows\<close>

text \<open>
  Claim C9. In a completed run the table has one row per configuration, in batch order.
  For configuration \<open>i\<close> the model is built from \<open>hw_x\<close>, \<open>hw_y = ratio * hw_x\<close>, \<open>V_sd\<close>, \<open>B\<close>
  and the angle, and its row is, in this order, the model's \<open>hw_x\<close>, \<open>hw_y / hw_x\<close>,
  magnetic field, angle, \<open>E1\<close>, \<open>E2\<close>, \<open>eVsd\<close>, cyclotron energy \<open>hw_c\<close> and the Zeeman
  splitting at spin projection 1/2. The table is printed under the fixed column names.
\<close>

theorem summary_rows:
  assumes "plotter Model material exp_setup channels offset graph_name fmt savefig = Inr s"
  shows "length (table s) = length exp_setup \<and>
         (\<forall>i < length exp_setup.
            table s ! i =
              (let experiment = exp_setup ! i;
                   hwx = experiment ! 0;
                   hwy = experiment ! 1 * hwx;
                   m = Model material hwx hwy (experiment ! 2) (experiment ! 3) (experiment ! 4)
               in [hw_x m, hw_y m / hw_x m, magnetic_field m, angle m, E1 m, E2 m, eVsd m,
                   hw_c m, zeeman m (1 / 2)])) \<and>
         Print_table field_names (table s) \<in> set (events s)"
proof -
  from plotter_Inr[OF assms] have
    t: "table s = map (\<lambda>i. summary_row (model_at Model material exp_setup i)) [0..<length exp_setup]"
    and "\<exists>xm. events s = events (init_graph channels graph_name) @
             map (\<lambda>i. Plot Fig (display_sweep (length exp_setup) offset channels)
                        (overlay_trace Model material exp_setup channels offset
                           (display_sweep (length exp_setup) offset channels) i))
                 [0..<length exp_setup] @
             [Print_table field_names (table s), Print_line note_text, Set_xlim Fig (- 1) xm] @
             (if length exp_setup > 1
              then contour_events offset graph_name (length exp_setup) xm (dydx s) @
                   save_events Fig1 ''diff_'' savefig
              else []) @
             save_events Fig [] savefig @ [Show]"
    by blast+
  then have p: "Print_table field_names (table s) \<in> set (events s)" by auto
  from t have "length (table s) = length exp_setup" by simp
  moreover from t have "\<forall>i < length exp_setup.
            table s ! i =
              (let experiment = exp_setup ! i;
                   hwx = experiment ! 0;
                   hwy = experiment ! 1 * hwx;
                   m = Model material hwx hwy (experiment ! 2) (experiment ! 3) (experiment ! 4)
               in [hw_x m, hw_y m / hw_x m, magnetic_field m, angle m, E1 m, E2 m, eVsd m,
                   hw_c m, zeeman m (1 / 2)])"
    by (simp add: summary_row_def model_at_def Let_def)
  ultimately show ?thesis using p by blast
qed

theorem summary_rows_witness:
  "raised (plotter step_model GaAs two_rows 3 5 ''conductance'' ''pdf'' (Some ''out.pdf'')) = None \<and>
   table (final_state
       (plotter step_model GaAs two_rows 3 5 ''conductance'' ''pdf'' (Some ''out.pdf''))) =
     [[2, 1, 0, 0, 1, 3, 0, 0, 0], [2, 1, 1, 0, 1, 3, 0, 1, 1 / 2]]"
proof -
  from example_run_completes obtain s where
    s: "plotter step_model GaAs two_rows 3 5 ''conductance'' ''pdf'' (Some ''out.pdf'') = Inr s"
    by blast
  from summary_rows[OF s] have len: "length (table s) = 2"
    and rows: "\<And>i. i < 2 \<Longrightarrow> table s ! i =
              (let experiment = two_rows ! i;
                   hwx = experiment ! 0;
                   hwy = experiment ! 1 * hwx;
                   m = step_model GaAs hwx hwy (experiment ! 2) (experiment ! 3) (experiment ! 4)
               in [hw_x m, hw_y m / hw_x m, magnetic_field m, angle m, E1 m, E2 m, eVsd m,
                   hw_c m, zeeman m (1 / 2)])"
    by (simp_all add: two_rows_def)
  from rows[of 0] have r0: "table s ! 0 = [2, 1, 0, 0, 1, 3, 0, 0, 0]"
    by (simp add: two_rows_def step_model_def)
  from rows[of 1] have r1: "table s ! 1 = [2, 1, 1, 0, 1, 3, 0, 1, 1 / 2]"
    by (simp add: two_rows_def step_model_def)
  from len r0 r1 have "table s = [[2, 1, 0, 0, 1, 3, 0, 0, 0], [2, 1, 1, 0, 1, 3, 0, 1, 1 / 2]]"
    by (cases "table s" rule: list.exhaust[case_product list.exhaust])
       (auto simp: length_Suc_conv)
  with s show ?thesis by simp
qed

subsection \<open>A failed saturation lookup saves nothing\<close>

text \<open>
  Claim C10. If the overlay trace of the last configuration has no sample with
  conductance \<open>\<ge> channels - 0.1\<close>, the run raises before any call of \<open>savefig\<close> (and of
  \<open>show\<close>): even with a save name, neither the overlay file nor the \<open>diff_\<close> file is
  written.
\<close>

theorem no_save_when_saturation_fails:
  assumes "\<forall>v \<in> set (overlay_trace Model material exp_setup channels offset
                 (display_sweep (length exp_setup) offset channels) (length exp_setup - 1)).
                \<not> v \<ge> real_of_int channels - 0.1"
  shows "\<exists>e s. plotter Model material exp_setup channels offset graph_name fmt savefig = Inl (e, s) \<and>
               filter is_savefig (events s) = [] \<and> Show \<notin> set (events s)"
proof (cases "plotter Model material exp_setup channels offset graph_name fmt savefig")
  case (Inl err)
  obtain e s where "err = (e, s)" by (cases err)
  with Inl have "plotter Model material exp_setup channels offset graph_name fmt savefig = Inl (e, s)"
    by simp
  with failed_run_events[OF this] show ?thesis by blast
next
  case (Inr s)
  from plotter_Inr[OF Inr] obtain xm where
    "saturation channels (display_sweep (length exp_setup) offset channels)
       (overlay_trace Model material exp_setup channels offset
          (display_sweep (length exp_setup) offset channels) (length exp_setup - 1)) = Inr xm"
    by blast
  with saturation_none[OF assms, of "display_sweep (length exp_setup) offset channels"]
  show ?thesis by simp
qed

theorem no_save_when_saturation_fails_witness:
  "raised (plotter flat_model GaAs two_rows 3 5 ''conductance'' ''pdf'' (Some ''out.pdf'')) \<noteq> None \<and>
   filter is_savefig (events (final_state
       (plotter flat_model GaAs two_rows 3 5 ''conductance'' ''pdf'' (Some ''out.pdf'')))) = []"
proof -
  from no_save_when_saturation_fails[of flat_model GaAs two_rows 3 5 "''conductance''" "''pdf''"
      "Some ''out.pdf''", OF flat_trace_never_saturates]
  obtain e s where
    "plotter flat_model GaAs two_rows 3 5 ''conductance'' ''pdf'' (Some ''out.pdf'') = Inl (e, s)"
    and "filter is_savefig (events s) = []"
    by blast
  then show ?thesis by simp
qed

end
